theory Spec2Isabelle
  imports Main "HOL-Library.Word" "HOL-Library.Multiset"
begin

unbundle bit_operations_syntax

section \<open>The exposed types (acl\_native.h)\<close>

text \<open>
  The C enums and \<open>int32_t\<close> fields are 32-bit values; an enum-typed field can hold
  any 32-bit value, not only the named ones, so the fields are words and the
  enumerators are constants.
\<close>

type_synonym int32_t = "32 word"
type_synonym native_file_permission_t = "32 word"
type_synonym native_acl_entry_tag_type_t = "32 word"

definition FILE_PERMISSION_NONE :: native_file_permission_t where "FILE_PERMISSION_NONE = 0"
definition FILE_PERMISSION_EXECUTE :: native_file_permission_t where "FILE_PERMISSION_EXECUTE = 1"
definition FILE_PERMISSION_WRITE :: native_file_permission_t where "FILE_PERMISSION_WRITE = 2"
definition FILE_PERMISSION_READ :: native_file_permission_t where "FILE_PERMISSION_READ = 4"
definition FILE_PERMISSION_SETID :: native_file_permission_t where "FILE_PERMISSION_SETID = 8"
definition FILE_PERMISSION_STICKY :: native_file_permission_t where "FILE_PERMISSION_STICKY = 16"

definition ACL_ENTRY_TAG_TYPE_USER_OBJ :: native_acl_entry_tag_type_t where "ACL_ENTRY_TAG_TYPE_USER_OBJ = 1"
definition ACL_ENTRY_TAG_TYPE_USER :: native_acl_entry_tag_type_t where "ACL_ENTRY_TAG_TYPE_USER = 2"
definition ACL_ENTRY_TAG_TYPE_GROUP_OBJ :: native_acl_entry_tag_type_t where "ACL_ENTRY_TAG_TYPE_GROUP_OBJ = 3"
definition ACL_ENTRY_TAG_TYPE_GROUP :: native_acl_entry_tag_type_t where "ACL_ENTRY_TAG_TYPE_GROUP = 4"
definition ACL_ENTRY_TAG_TYPE_MASK :: native_acl_entry_tag_type_t where "ACL_ENTRY_TAG_TYPE_MASK = 5"
definition ACL_ENTRY_TAG_TYPE_OTHER :: native_acl_entry_tag_type_t where "ACL_ENTRY_TAG_TYPE_OTHER = 6"

record native_acl_entry_t =
  tagType :: native_acl_entry_tag_type_t
  tagQualifier :: int32_t
  permissions :: native_file_permission_t

record native_permission_data_container_t =
  ownerId :: int32_t
  ownerPermissions :: native_file_permission_t
  groupId :: int32_t
  groupPermissions :: native_file_permission_t
  otherPermissions :: native_file_permission_t
  aclSize :: int32_t

datatype native_error_code_t =
    NATIVE_ERROR_SUCCESS
  | NATIVE_ERROR_OPEN_FAILED
  | NATIVE_ERROR_FSTAT_FAILED
  | NATIVE_ERROR_GET_ACL_FAILED
  | NATIVE_ERROR_GET_ACL_ENTRY_FAILED
  | NATIVE_ERROR_GET_ACL_ENTRY_TAG_TYPE_FAILED
  | NATIVE_ERROR_GET_ACL_ENTRY_QUALIFIER_FAILED
  | NATIVE_ERROR_GET_ACL_ENTRY_PERMSET_FAILED
  | NATIVE_ERROR_GET_ACL_ENTRY_PERM_FAILED
  | NATIVE_ERROR_CHOWN_FAILED
  | NATIVE_ERROR_CHMOD_FAILED
  | NATIVE_ERROR_INIT_ACL_FAILED
  | NATIVE_ERROR_CREATE_ACL_ENTRY_FAILED
  | NATIVE_ERROR_INVALID_TAG_TYPE
  | NATIVE_ERROR_SET_ACL_ENTRY_TAG_TYPE_FAILED
  | NATIVE_ERROR_SET_ACL_ENTRY_QUALIFIER_FAILED
  | NATIVE_ERROR_CLEAR_ACL_ENTRY_PERMS_FAILED
  | NATIVE_ERROR_ADD_ACL_ENTRY_PERM_FAILED
  | NATIVE_ERROR_VALIDATE_ACL_FAILED
  | NATIVE_ERROR_SET_ACL_FAILED

section \<open>The platform as the code sees it\<close>

text \<open>
  The headers \<open>sys/stat.h\<close> and \<open>sys/acl.h\<close> are not part of the repository.
  The mode bits have the octal values that POSIX fixes for them (\<open>S_ISUID\<close> is 04000,
  \<open>S_IRUSR\<close> is 0400, ..., \<open>S_IXOTH\<close> is 01). The numeric values of the ACL tags are
  never used by the code, which only switches on the named ones, so \<open>acl_tag_t\<close> is a
  datatype with one more constructor for every other value.
\<close>

type_synonym uid_t = "32 word"
type_synonym gid_t = "32 word"
type_synonym mode_t = "32 word"

definition S_ISUID :: mode_t where "S_ISUID = 2048"
definition S_ISGID :: mode_t where "S_ISGID = 1024"
definition S_ISVTX :: mode_t where "S_ISVTX = 512"
definition S_IRUSR :: mode_t where "S_IRUSR = 256"
definition S_IWUSR :: mode_t where "S_IWUSR = 128"
definition S_IXUSR :: mode_t where "S_IXUSR = 64"
definition S_IRGRP :: mode_t where "S_IRGRP = 32"
definition S_IWGRP :: mode_t where "S_IWGRP = 16"
definition S_IXGRP :: mode_t where "S_IXGRP = 8"
definition S_IROTH :: mode_t where "S_IROTH = 4"
definition S_IWOTH :: mode_t where "S_IWOTH = 2"
definition S_IXOTH :: mode_t where "S_IXOTH = 1"

text \<open>
  Of \<open>struct stat\<close> the code reads \<open>st_uid\<close>, \<open>st_mode\<close>, \<open>st_gid\<close> (line 245) and a
  member it names \<open>st_git\<close> (line 78). POSIX has no member of that name; the record keeps
  it as a member of its own, so that what line 78 reads is not taken to be the group.
\<close>

record stat =
  st_uid :: uid_t
  st_gid :: gid_t
  st_git :: gid_t
  st_mode :: mode_t

datatype acl_tag_t =
    ACL_UNDEFINED_TAG | ACL_USER_OBJ | ACL_USER | ACL_GROUP_OBJ | ACL_GROUP | ACL_MASK | ACL_OTHER
  | ACL_TAG_VALUE int

datatype acl_type_t = ACL_TYPE_ACCESS | ACL_TYPE_DEFAULT

text \<open>The system and library functions the code calls and whose failure it tests.\<close>

datatype libcall =
    C_open | C_fstat | C_acl_get_fd | C_acl_get_entry | C_acl_get_tag_type
  | C_acl_get_qualifier | C_acl_get_permset | C_acl_get_perm | C_fchown | C_fchmod
  | C_acl_init | C_acl_create_entry | C_acl_set_tag_type | C_acl_set_qualifier
  | C_acl_clear_perms | C_acl_add_perm | C_acl_valid | C_acl_set_fd

text \<open>
  What the code does to the platform is recorded as a trace of events: the calls that
  acquire, release or change something, with their arguments and what they returned,
  and every call of the list above that reported a failure, with the \<open>errno\<close> it set.
  The code discards what \<open>acl_free\<close> and \<open>close\<close> return, so their events carry no
  result.
\<close>

datatype event =
    Open string int
  | Fchown int uid_t gid_t int
  | Fchmod int mode_t int
  | AclGetFd int acl_type_t "nat option"
  | AclInit int32_t "nat option"
  | AclSetFd int "nat option" int
  | AclFree nat
  | AclFreeQualifier
  | Close int
  | Failed libcall int

text \<open>
  The four file-scope variables of acl\_native.c (\<open>_fd\<close>, \<open>_acl\<close>, \<open>_lastErrnoValue\<close>,
  \<open>_lastErrnoString\<close>), and the platform's part of the state: \<open>errno\<close>, \<open>strerror_r\<close>, the
  effect on \<open>errno\<close> of the calls whose result is discarded, and the trace. An ACL handle
  is an address; \<open>None\<close> is \<open>NULL\<close>.

  \<open>lastErrnoString\<close> is the text in the 256-byte buffer. acl\_native.c includes no header
  that declares \<open>strerror_r\<close> and tests nothing it returns, so what the call does to the
  buffer is the platform's affair: the XSI function writes the description of the error
  number into it, the GNU function of the same name may return a pointer to a text of
  its own and leave the buffer alone. \<open>strerror_r s e old\<close> is the text in the buffer after
  the call for the error number \<open>e\<close> on a buffer that held \<open>old\<close>.

  A call whose result is discarded can fail like any other, and then sets \<open>errno\<close>:
  \<open>discarded s tr\<close>, for the trace \<open>tr\<close> up to and including that call, is \<open>Some e\<close> when
  the call sets \<open>errno\<close> to \<open>e\<close> and \<open>None\<close> when it leaves \<open>errno\<close> as it is.
\<close>

record state =
  fd :: int
  acl :: "nat option"
  lastErrnoValue :: int
  lastErrnoString :: string
  errno :: int
  strerror_r :: "int \<Rightarrow> string \<Rightarrow> string"
  discarded :: "event list \<Rightarrow> int option"
  trace :: "event list"

text \<open>
  The answers of the platform are inputs of the model. A call that returns an \<open>int\<close> is
  answered by a pair: the value returned, and the \<open>errno\<close> it sets when that value is
  negative. A call that returns a pointer is answered by \<open>Inl e\<close> (\<open>NULL\<close>, \<open>errno\<close> set
  to \<open>e\<close>) or \<open>Inr v\<close> (what the pointer refers to).
\<close>

type_synonym int_answer = "int \<times> int"

definition emit :: "event \<Rightarrow> state \<Rightarrow> state" where
  "emit ev s = s\<lparr>trace := trace s @ [ev]\<rparr>"

definition fails :: "libcall \<Rightarrow> int \<Rightarrow> state \<Rightarrow> state" where
  "fails c e s = s\<lparr>errno := e, trace := trace s @ [Failed c e]\<rparr>"

definition call_discarded :: "event \<Rightarrow> state \<Rightarrow> state" where
  "call_discarded ev s =
     s\<lparr>errno := (case discarded s (trace s @ [ev]) of None \<Rightarrow> errno s | Some e \<Rightarrow> e),
       trace := trace s @ [ev]\<rparr>"

definition call_int :: "libcall \<Rightarrow> int_answer \<Rightarrow> state \<Rightarrow> state" where
  "call_int c r s = (if fst r < 0 then fails c (snd r) s else s)"

definition call_ptr :: "libcall \<Rightarrow> int + 'a \<Rightarrow> state \<Rightarrow> state" where
  "call_ptr c r s = (case r of Inl e \<Rightarrow> fails c e s | Inr v \<Rightarrow> s)"

definition pointer :: "int + 'a \<Rightarrow> 'a option" where
  "pointer r = (case r of Inl e \<Rightarrow> None | Inr v \<Rightarrow> Some v)"

text \<open>
  An ACL as \<open>acl_get_entry\<close> walks it: the entries it yields with status 1, each with
  the answers to the queries the code makes on it, and then either the end
  (status 0, \<open>None\<close>) or a failure (status -1 with an \<open>errno\<close>). A walk is finite.
\<close>

record entry_answers =
  a_get_tag_type :: int_answer
  a_tag :: acl_tag_t
  a_get_qualifier :: "int + int32_t"
  a_get_permset :: int_answer
  a_get_perm_read :: int_answer
  a_get_perm_write :: int_answer
  a_get_perm_execute :: int_answer

record acl_walk =
  walk_entries :: "entry_answers list"
  walk_end :: "int option"

record open_answers =
  o_open :: int_answer
  o_fstat :: int_answer
  o_fileStat :: stat
  o_acl_get_fd :: "int + nat"
  o_walk :: acl_walk

record build_answers =
  b_acl_create_entry :: int_answer
  b_acl_set_tag_type :: int_answer
  b_acl_set_qualifier :: int_answer
  b_acl_get_permset :: int_answer
  b_acl_clear_perms :: int_answer
  b_acl_add_perm_read :: int_answer
  b_acl_add_perm_write :: int_answer
  b_acl_add_perm_execute :: int_answer

record set_answers =
  w_open :: int_answer
  w_fstat :: int_answer
  w_fileStat :: stat
  w_fchown :: int_answer
  w_fchmod :: int_answer
  w_acl_init :: "int + nat"
  w_entry :: "nat \<Rightarrow> build_answers"
  w_acl_valid :: int_answer
  w_acl_set_fd :: int_answer

section \<open>Permission bits and the mode bitfield\<close>

text \<open>
  The expressions of lines 79 to 90 (read path) and 254 to 265 (write path) of
  acl\_native.c, named as the specification names them.
\<close>

definition ownerPermissions_of_mode :: "mode_t \<Rightarrow> native_file_permission_t" where
  "ownerPermissions_of_mode m =
     (if m AND S_IRUSR \<noteq> 0 then FILE_PERMISSION_READ else FILE_PERMISSION_NONE)
  OR (if m AND S_IWUSR \<noteq> 0 then FILE_PERMISSION_WRITE else FILE_PERMISSION_NONE)
  OR (if m AND S_IXUSR \<noteq> 0 then FILE_PERMISSION_EXECUTE else FILE_PERMISSION_NONE)
  OR (if m AND S_ISUID \<noteq> 0 then FILE_PERMISSION_SETID else FILE_PERMISSION_NONE)
  OR (if m AND S_ISVTX \<noteq> 0 then FILE_PERMISSION_STICKY else FILE_PERMISSION_NONE)"

definition groupPermissions_of_mode :: "mode_t \<Rightarrow> native_file_permission_t" where
  "groupPermissions_of_mode m =
     (if m AND S_IRGRP \<noteq> 0 then FILE_PERMISSION_READ else FILE_PERMISSION_NONE)
  OR (if m AND S_IWGRP \<noteq> 0 then FILE_PERMISSION_WRITE else FILE_PERMISSION_NONE)
  OR (if m AND S_IXGRP \<noteq> 0 then FILE_PERMISSION_EXECUTE else FILE_PERMISSION_NONE)
  OR (if m AND S_ISGID \<noteq> 0 then FILE_PERMISSION_SETID else FILE_PERMISSION_NONE)"

definition otherPermissions_of_mode :: "mode_t \<Rightarrow> native_file_permission_t" where
  "otherPermissions_of_mode m =
     (if m AND S_IROTH \<noteq> 0 then FILE_PERMISSION_READ else FILE_PERMISSION_NONE)
  OR (if m AND S_IWOTH \<noteq> 0 then FILE_PERMISSION_WRITE else FILE_PERMISSION_NONE)
  OR (if m AND S_IXOTH \<noteq> 0 then FILE_PERMISSION_EXECUTE else FILE_PERMISSION_NONE)"

definition decodeMode ::
  "mode_t \<Rightarrow> native_file_permission_t \<times> native_file_permission_t \<times> native_file_permission_t" where
  "decodeMode m = (ownerPermissions_of_mode m, groupPermissions_of_mode m, otherPermissions_of_mode m)"

definition encodeMode ::
  "native_file_permission_t \<Rightarrow> native_file_permission_t \<Rightarrow> native_file_permission_t \<Rightarrow> mode_t" where
  "encodeMode ownerPerm groupPerm otherPerm =
     (if ownerPerm AND FILE_PERMISSION_READ \<noteq> 0 then S_IRUSR else 0)
  OR (if ownerPerm AND FILE_PERMISSION_WRITE \<noteq> 0 then S_IWUSR else 0)
  OR (if ownerPerm AND FILE_PERMISSION_EXECUTE \<noteq> 0 then S_IXUSR else 0)
  OR (if ownerPerm AND FILE_PERMISSION_SETID \<noteq> 0 then S_ISUID else 0)
  OR (if ownerPerm AND FILE_PERMISSION_STICKY \<noteq> 0 then S_ISVTX else 0)
  OR (if groupPerm AND FILE_PERMISSION_READ \<noteq> 0 then S_IRGRP else 0)
  OR (if groupPerm AND FILE_PERMISSION_WRITE \<noteq> 0 then S_IWGRP else 0)
  OR (if groupPerm AND FILE_PERMISSION_EXECUTE \<noteq> 0 then S_IXGRP else 0)
  OR (if groupPerm AND FILE_PERMISSION_SETID \<noteq> 0 then S_ISGID else 0)
  OR (if otherPerm AND FILE_PERMISSION_READ \<noteq> 0 then S_IROTH else 0)
  OR (if otherPerm AND FILE_PERMISSION_WRITE \<noteq> 0 then S_IWOTH else 0)
  OR (if otherPerm AND FILE_PERMISSION_EXECUTE \<noteq> 0 then S_IXOTH else 0)"

definition encode_decoded :: "mode_t \<Rightarrow> mode_t" where
  "encode_decoded m = (case decodeMode m of (p, q, r) \<Rightarrow> encodeMode p q r)"

section \<open>Utility functions\<close>

definition store_errno :: "state \<Rightarrow> state" where
  "store_errno s =
     s\<lparr>lastErrnoValue := errno s, lastErrnoString := strerror_r s (errno s) (lastErrnoString s)\<rparr>"

definition cleanup_with_error_code :: "native_error_code_t \<Rightarrow> state \<Rightarrow> native_error_code_t \<times> state" where
  "cleanup_with_error_code errorCode s =
     (let s1 = (case acl s of Some h \<Rightarrow> (call_discarded (AclFree h) s)\<lparr>acl := None\<rparr> | None \<Rightarrow> s);
          s2 = (if fd s1 \<noteq> 0 then (call_discarded (Close (fd s1)) s1)\<lparr>fd := 0\<rparr> else s1)
      in (errorCode, s2))"

section \<open>OpenFileAndReadPermissionData\<close>

text \<open>The counting loop of lines 101 to 108: one increment of the local \<open>aclSize\<close> (here \<open>n\<close>) for each entry.\<close>

fun count_entries :: "entry_answers list \<Rightarrow> int32_t \<Rightarrow> int32_t" where
  "count_entries [] n = n"
| "count_entries (e # es) n = count_entries es (n + 1)"

text \<open>
  Lines 77 to 90. Line 78 stores \<open>fileStat.st_git\<close> as the group, and so does the model.
  Line 55 ends the declarator with a semicolon; the block that follows it is taken as
  the body of the function.
\<close>

definition fill_basic_permission_fields ::
  "stat \<Rightarrow> native_permission_data_container_t \<Rightarrow> native_permission_data_container_t" where
  "fill_basic_permission_fields fileStat dataContainer =
     dataContainer\<lparr>ownerId := st_uid fileStat,
                   groupId := st_git fileStat,
                   ownerPermissions := ownerPermissions_of_mode (st_mode fileStat),
                   groupPermissions := groupPermissions_of_mode (st_mode fileStat),
                   otherPermissions := otherPermissions_of_mode (st_mode fileStat)\<rparr>"

text \<open>The second argument of \<open>acl_get_fd\<close> on line 93.\<close>

definition aclType :: "int32_t \<Rightarrow> acl_type_t" where
  "aclType loadDefaultAcl = (if 0 < sint loadDefaultAcl then ACL_TYPE_DEFAULT else ACL_TYPE_ACCESS)"

definition returning ::
  "'c \<Rightarrow> native_error_code_t \<times> state \<Rightarrow> native_error_code_t \<times> 'c \<times> state" where
  "returning out r = (fst r, out, snd r)"

definition OpenFileAndReadPermissionData ::
  "open_answers \<Rightarrow> string \<Rightarrow> int32_t \<Rightarrow> native_permission_data_container_t \<Rightarrow> state
     \<Rightarrow> native_error_code_t \<times> native_permission_data_container_t \<times> state" where
  "OpenFileAndReadPermissionData p fileName loadDefaultAcl dataContainer s0 =
    (let s1 = s0\<lparr>lastErrnoValue := 0\<rparr>;
         s2 = (call_int C_open (o_open p) (emit (Open fileName (fst (o_open p))) s1))
                \<lparr>fd := fst (o_open p)\<rparr>
     in if fd s2 < 0 then (NATIVE_ERROR_OPEN_FAILED, dataContainer, store_errno s2)
     else let s3 = call_int C_fstat (o_fstat p) s2
     in if fst (o_fstat p) < 0
        then returning dataContainer (cleanup_with_error_code NATIVE_ERROR_FSTAT_FAILED (store_errno s3))
     else let dc1 = fill_basic_permission_fields (o_fileStat p) dataContainer;
              s4 = (call_ptr C_acl_get_fd (o_acl_get_fd p)
                      (emit (AclGetFd (fd s3) (aclType loadDefaultAcl) (pointer (o_acl_get_fd p))) s3))
                     \<lparr>acl := pointer (o_acl_get_fd p)\<rparr>
     in if acl s4 = None
        then returning dc1 (cleanup_with_error_code NATIVE_ERROR_GET_ACL_FAILED (store_errno s4))
     else let n = count_entries (walk_entries (o_walk p)) 0
     in case walk_end (o_walk p) of
          Some e \<Rightarrow> returning dc1 (cleanup_with_error_code NATIVE_ERROR_GET_ACL_ENTRY_FAILED
                                     (store_errno (fails C_acl_get_entry e s4)))
        | None \<Rightarrow> (NATIVE_ERROR_SUCCESS, dc1\<lparr>aclSize := n\<rparr>, s4))"

section \<open>ReadFileAclAndClose\<close>

text \<open>
  The caller's array is memory addressed by index: \<open>entries i\<close> is the record at
  \<open>&entries[i]\<close>. The code never checks an index against the size the caller
  allocated. The first \<open>switch\<close> stores a tag type for the six known tags and leaves the
  field as it was for \<open>ACL_UNDEFINED_TAG\<close> and for every other value.
\<close>

type_synonym entry_array = "nat \<Rightarrow> native_acl_entry_t"

definition set_tag_type :: "acl_tag_t \<Rightarrow> native_acl_entry_t \<Rightarrow> native_acl_entry_t" where
  "set_tag_type t e =
     (case t of
        ACL_USER_OBJ \<Rightarrow> e\<lparr>tagType := ACL_ENTRY_TAG_TYPE_USER_OBJ\<rparr>
      | ACL_USER \<Rightarrow> e\<lparr>tagType := ACL_ENTRY_TAG_TYPE_USER\<rparr>
      | ACL_GROUP_OBJ \<Rightarrow> e\<lparr>tagType := ACL_ENTRY_TAG_TYPE_GROUP_OBJ\<rparr>
      | ACL_GROUP \<Rightarrow> e\<lparr>tagType := ACL_ENTRY_TAG_TYPE_GROUP\<rparr>
      | ACL_MASK \<Rightarrow> e\<lparr>tagType := ACL_ENTRY_TAG_TYPE_MASK\<rparr>
      | ACL_OTHER \<Rightarrow> e\<lparr>tagType := ACL_ENTRY_TAG_TYPE_OTHER\<rparr>
      | ACL_UNDEFINED_TAG \<Rightarrow> e
      | ACL_TAG_VALUE v \<Rightarrow> e)"

definition has_qualifier :: "acl_tag_t \<Rightarrow> bool" where
  "has_qualifier t = (case t of ACL_USER \<Rightarrow> True | ACL_GROUP \<Rightarrow> True | _ \<Rightarrow> False)"

definition entry_permissions :: "int \<Rightarrow> int \<Rightarrow> int \<Rightarrow> native_file_permission_t" where
  "entry_permissions canRead canWrite canExecute =
     (if canRead > 0 then FILE_PERMISSION_READ else FILE_PERMISSION_NONE)
  OR (if canWrite > 0 then FILE_PERMISSION_WRITE else FILE_PERMISSION_NONE)
  OR (if canExecute > 0 then FILE_PERMISSION_EXECUTE else FILE_PERMISSION_NONE)"

text \<open>
  One iteration of the loop of lines 129 to 208 on the record \<open>e\<close> at \<open>&entries[i]\<close>:
  \<open>Inl\<close> is a \<open>return\<close> out of the function, with the record as it is at that moment,
  \<open>Inr\<close> goes on to the next entry.
\<close>

definition read_entry ::
  "entry_answers \<Rightarrow> native_acl_entry_t \<Rightarrow> state
     \<Rightarrow> (native_error_code_t \<times> native_acl_entry_t \<times> state) + (native_acl_entry_t \<times> state)" where
  "read_entry a e s =
    (let s1 = call_int C_acl_get_tag_type (a_get_tag_type a) s
     in if fst (a_get_tag_type a) < 0
        then Inl (returning e (cleanup_with_error_code NATIVE_ERROR_GET_ACL_ENTRY_TAG_TYPE_FAILED (store_errno s1)))
     else let tag = a_tag a;
              e1 = set_tag_type tag e;
              s2 = (if has_qualifier tag then call_ptr C_acl_get_qualifier (a_get_qualifier a) s1 else s1)
     in if has_qualifier tag \<and> pointer (a_get_qualifier a) = None
        then Inl (returning e1 (cleanup_with_error_code NATIVE_ERROR_GET_ACL_ENTRY_QUALIFIER_FAILED (store_errno s2)))
     else let e2 = (case (has_qualifier tag, pointer (a_get_qualifier a)) of
                      (True, Some q) \<Rightarrow> e1\<lparr>tagQualifier := q\<rparr>
                    | _ \<Rightarrow> e1\<lparr>tagQualifier := 0\<rparr>);
              s3 = (if has_qualifier tag then call_discarded AclFreeQualifier s2 else s2);
              s4 = call_int C_acl_get_permset (a_get_permset a) s3
     in if fst (a_get_permset a) < 0
        then Inl (returning e2 (cleanup_with_error_code NATIVE_ERROR_GET_ACL_ENTRY_PERMSET_FAILED (store_errno s4)))
     else let canRead = fst (a_get_perm_read a);
              s5 = call_int C_acl_get_perm (a_get_perm_read a) s4
     in if canRead < 0
        then Inl (returning e2 (cleanup_with_error_code NATIVE_ERROR_GET_ACL_ENTRY_PERM_FAILED (store_errno s5)))
     else let canWrite = fst (a_get_perm_write a);
              s6 = call_int C_acl_get_perm (a_get_perm_write a) s5
     in if canWrite < 0
        then Inl (returning e2 (cleanup_with_error_code NATIVE_ERROR_GET_ACL_ENTRY_PERM_FAILED (store_errno s6)))
     else let canExecute = fst (a_get_perm_execute a);
              s7 = call_int C_acl_get_perm (a_get_perm_execute a) s6
     in if canExecute < 0
        then Inl (returning e2 (cleanup_with_error_code NATIVE_ERROR_GET_ACL_ENTRY_PERM_FAILED (store_errno s7)))
     else Inr (e2\<lparr>permissions := entry_permissions canRead canWrite canExecute\<rparr>, s7))"

fun read_entries ::
  "entry_answers list \<Rightarrow> nat \<Rightarrow> entry_array \<Rightarrow> state
     \<Rightarrow> (native_error_code_t \<times> entry_array \<times> state) + (entry_array \<times> state)" where
  "read_entries [] i entries s = Inr (entries, s)"
| "read_entries (a # as) i entries s =
     (case read_entry a (entries i) s of
        Inl (rc, e, s') \<Rightarrow> Inl (rc, entries(i := e), s')
      | Inr (e, s') \<Rightarrow> read_entries as (Suc i) (entries(i := e)) s')"

definition ReadFileAclAndClose ::
  "acl_walk \<Rightarrow> entry_array \<Rightarrow> state \<Rightarrow> native_error_code_t \<times> entry_array \<times> state" where
  "ReadFileAclAndClose w entries s0 =
    (let s1 = s0\<lparr>lastErrnoValue := 0\<rparr>
     in case read_entries (walk_entries w) 0 entries s1 of
          Inl r \<Rightarrow> r
        | Inr (entries', s2) \<Rightarrow>
            (case walk_end w of
               Some e \<Rightarrow> returning entries' (cleanup_with_error_code NATIVE_ERROR_GET_ACL_ENTRY_FAILED
                                              (store_errno (fails C_acl_get_entry e s2)))
             | None \<Rightarrow> returning entries' (cleanup_with_error_code NATIVE_ERROR_SUCCESS s2)))"

section \<open>SetFilePermissionDataAndAcl\<close>

text \<open>
  The \<open>switch\<close> of lines 297 to 306: the platform tag for each of the six tag types;
  \<open>None\<close> is the \<open>default\<close> branch, which returns \<open>NATIVE_ERROR_INVALID_TAG_TYPE\<close>.
\<close>

definition platform_tag :: "native_acl_entry_tag_type_t \<Rightarrow> acl_tag_t option" where
  "platform_tag t =
     (if t = ACL_ENTRY_TAG_TYPE_USER_OBJ then Some ACL_USER_OBJ
      else if t = ACL_ENTRY_TAG_TYPE_USER then Some ACL_USER
      else if t = ACL_ENTRY_TAG_TYPE_GROUP_OBJ then Some ACL_GROUP_OBJ
      else if t = ACL_ENTRY_TAG_TYPE_GROUP then Some ACL_GROUP
      else if t = ACL_ENTRY_TAG_TYPE_MASK then Some ACL_MASK
      else if t = ACL_ENTRY_TAG_TYPE_OTHER then Some ACL_OTHER
      else None)"

text \<open>
  One iteration of the loop of lines 281 to 357: \<open>Inl\<close> is a \<open>return\<close> out of the
  function, \<open>Inr\<close> goes on to the next entry. \<open>acl_create_entry\<close> extends the ACL in
  place: the handle in \<open>_acl\<close> stays the same.
\<close>

definition build_entry ::
  "build_answers \<Rightarrow> native_acl_entry_t \<Rightarrow> state \<Rightarrow> (native_error_code_t \<times> state) + state" where
  "build_entry b entryData s =
    (let s1 = call_int C_acl_create_entry (b_acl_create_entry b) s
     in if fst (b_acl_create_entry b) < 0
        then Inl (cleanup_with_error_code NATIVE_ERROR_CREATE_ACL_ENTRY_FAILED (store_errno s1))
     else case platform_tag (tagType entryData) of
       None \<Rightarrow> Inl (cleanup_with_error_code NATIVE_ERROR_INVALID_TAG_TYPE s1)
     | Some tag \<Rightarrow>
     (let s2 = call_int C_acl_set_tag_type (b_acl_set_tag_type b) s1
      in if fst (b_acl_set_tag_type b) < 0
         then Inl (cleanup_with_error_code NATIVE_ERROR_SET_ACL_ENTRY_TAG_TYPE_FAILED (store_errno s2))
      else let qualified = (tagType entryData = ACL_ENTRY_TAG_TYPE_USER
                            \<or> tagType entryData = ACL_ENTRY_TAG_TYPE_GROUP);
               s3 = (if qualified then call_int C_acl_set_qualifier (b_acl_set_qualifier b) s2 else s2)
      in if qualified \<and> fst (b_acl_set_qualifier b) < 0
         then Inl (cleanup_with_error_code NATIVE_ERROR_SET_ACL_ENTRY_QUALIFIER_FAILED (store_errno s3))
      else let s4 = call_int C_acl_get_permset (b_acl_get_permset b) s3
      in if fst (b_acl_get_permset b) < 0
         then Inl (cleanup_with_error_code NATIVE_ERROR_GET_ACL_ENTRY_PERMSET_FAILED (store_errno s4))
      else let s5 = call_int C_acl_clear_perms (b_acl_clear_perms b) s4
      in if fst (b_acl_clear_perms b) < 0
         then Inl (cleanup_with_error_code NATIVE_ERROR_CLEAR_ACL_ENTRY_PERMS_FAILED (store_errno s5))
      else let addRead = (permissions entryData AND FILE_PERMISSION_READ \<noteq> 0);
               s6 = (if addRead then call_int C_acl_add_perm (b_acl_add_perm_read b) s5 else s5)
      in if addRead \<and> fst (b_acl_add_perm_read b) < 0
         then Inl (cleanup_with_error_code NATIVE_ERROR_ADD_ACL_ENTRY_PERM_FAILED (store_errno s6))
      else let addWrite = (permissions entryData AND FILE_PERMISSION_WRITE \<noteq> 0);
               s7 = (if addWrite then call_int C_acl_add_perm (b_acl_add_perm_write b) s6 else s6)
      in if addWrite \<and> fst (b_acl_add_perm_write b) < 0
         then Inl (cleanup_with_error_code NATIVE_ERROR_ADD_ACL_ENTRY_PERM_FAILED (store_errno s7))
      else let addExecute = (permissions entryData AND FILE_PERMISSION_EXECUTE \<noteq> 0);
               s8 = (if addExecute then call_int C_acl_add_perm (b_acl_add_perm_execute b) s7 else s7)
      in if addExecute \<and> fst (b_acl_add_perm_execute b) < 0
         then Inl (cleanup_with_error_code NATIVE_ERROR_ADD_ACL_ENTRY_PERM_FAILED (store_errno s8))
      else Inr s8))"

text \<open>The loop itself, from index \<open>i\<close>, with \<open>k\<close> iterations to go.\<close>

fun build_entries ::
  "(nat \<Rightarrow> build_answers) \<Rightarrow> entry_array \<Rightarrow> nat \<Rightarrow> nat \<Rightarrow> state \<Rightarrow> (native_error_code_t \<times> state) + state" where
  "build_entries b entries i 0 s = Inr s"
| "build_entries b entries i (Suc k) s =
     (case build_entry (b i) (entries i) s of
        Inl r \<Rightarrow> Inl r
      | Inr s' \<Rightarrow> build_entries b entries (Suc i) k s')"

text \<open>
  The function is written in five parts, each the function from one of its comments
  to its end; each part returns what the function returns.

  "Validate ACL" and "Assign ACL to file", lines 359 to 374.
\<close>

definition validate_and_assign :: "set_answers \<Rightarrow> state \<Rightarrow> native_error_code_t \<times> state" where
  "validate_and_assign p s =
    (let s1 = call_int C_acl_valid (w_acl_valid p) s
     in if fst (w_acl_valid p) < 0
        then cleanup_with_error_code NATIVE_ERROR_VALIDATE_ACL_FAILED (store_errno s1)
     else let s2 = call_int C_acl_set_fd (w_acl_set_fd p)
                     (emit (AclSetFd (fd s1) (acl s1) (fst (w_acl_set_fd p))) s1)
     in if fst (w_acl_set_fd p) < 0
        then cleanup_with_error_code NATIVE_ERROR_SET_ACL_FAILED (store_errno s2)
     else cleanup_with_error_code NATIVE_ERROR_SUCCESS s2)"

text \<open>
  "Create new ACL" and "Build ACL entries", lines 272 to 357. The loop runs for
  \<open>i = 0\<close> while \<open>i < dataContainer->aclSize\<close>, a comparison of signed values.
\<close>

definition create_and_build ::
  "set_answers \<Rightarrow> native_permission_data_container_t \<Rightarrow> entry_array \<Rightarrow> state
     \<Rightarrow> native_error_code_t \<times> state" where
  "create_and_build p dataContainer entries s =
    (let s1 = (call_ptr C_acl_init (w_acl_init p)
                 (emit (AclInit (aclSize dataContainer) (pointer (w_acl_init p))) s))
                \<lparr>acl := pointer (w_acl_init p)\<rparr>
     in if acl s1 = None
        then cleanup_with_error_code NATIVE_ERROR_INIT_ACL_FAILED (store_errno s1)
     else case build_entries (w_entry p) entries 0 (nat (sint (aclSize dataContainer))) s1 of
            Inl r \<Rightarrow> r
          | Inr s2 \<Rightarrow> validate_and_assign p s2)"

text \<open>"Build standard permission bitfield", lines 253 to 270.\<close>

definition chmodBits :: "native_permission_data_container_t \<Rightarrow> mode_t" where
  "chmodBits dataContainer =
     encodeMode (ownerPermissions dataContainer) (groupPermissions dataContainer)
       (otherPermissions dataContainer)"

definition change_mode ::
  "set_answers \<Rightarrow> native_permission_data_container_t \<Rightarrow> entry_array \<Rightarrow> state
     \<Rightarrow> native_error_code_t \<times> state" where
  "change_mode p dataContainer entries s =
    (let s1 = call_int C_fchmod (w_fchmod p)
                (emit (Fchmod (fd s) (chmodBits dataContainer) (fst (w_fchmod p))) s)
     in if fst (w_fchmod p) < 0
        then cleanup_with_error_code NATIVE_ERROR_CHMOD_FAILED (store_errno s1)
     else create_and_build p dataContainer entries s1)"

text \<open>
  "Change owner and group", lines 240 to 251. \<open>newOwner\<close> and \<open>newGroup\<close> are unsigned
  and start as \<open>-1\<close>, the value \<open>fchown\<close> takes for "leave unchanged"; the comparisons
  are comparisons of 32-bit values. \<open>fchown\<close> is called only when the left operand of
  \<open>&&\<close> holds.
\<close>

definition newOwner :: "native_permission_data_container_t \<Rightarrow> stat \<Rightarrow> uid_t" where
  "newOwner dataContainer fileStat =
     (if ownerId dataContainer \<noteq> st_uid fileStat then ownerId dataContainer else - 1)"

definition newGroup :: "native_permission_data_container_t \<Rightarrow> stat \<Rightarrow> gid_t" where
  "newGroup dataContainer fileStat =
     (if groupId dataContainer \<noteq> st_gid fileStat then groupId dataContainer else - 1)"

definition change_owner_and_group ::
  "set_answers \<Rightarrow> native_permission_data_container_t \<Rightarrow> entry_array \<Rightarrow> stat \<Rightarrow> state
     \<Rightarrow> native_error_code_t \<times> state" where
  "change_owner_and_group p dataContainer entries fileStat s =
    (if newOwner dataContainer fileStat \<noteq> - 1 \<or> newGroup dataContainer fileStat \<noteq> - 1
     then let s1 = call_int C_fchown (w_fchown p)
                     (emit (Fchown (fd s) (newOwner dataContainer fileStat)
                              (newGroup dataContainer fileStat) (fst (w_fchown p))) s)
          in if fst (w_fchown p) < 0
             then cleanup_with_error_code NATIVE_ERROR_CHOWN_FAILED (store_errno s1)
             else change_mode p dataContainer entries s1
     else change_mode p dataContainer entries s)"

text \<open>
  The function from its start, lines 221 to 238. Its parameter \<open>setDefaultAcl\<close> is not
  used anywhere in it.
\<close>

definition SetFilePermissionDataAndAcl ::
  "set_answers \<Rightarrow> string \<Rightarrow> int32_t \<Rightarrow> native_permission_data_container_t \<Rightarrow> entry_array \<Rightarrow> state
     \<Rightarrow> native_error_code_t \<times> state" where
  "SetFilePermissionDataAndAcl p fileName setDefaultAcl dataContainer entries s0 =
    (let s1 = s0\<lparr>lastErrnoValue := 0\<rparr>;
         s2 = (call_int C_open (w_open p) (emit (Open fileName (fst (w_open p))) s1))
                \<lparr>fd := fst (w_open p)\<rparr>
     in if fd s2 < 0 then (NATIVE_ERROR_OPEN_FAILED, store_errno s2)
     else let s3 = call_int C_fstat (w_fstat p) s2
     in if fst (w_fstat p) < 0
        then cleanup_with_error_code NATIVE_ERROR_FSTAT_FAILED (store_errno s3)
     else change_owner_and_group p dataContainer entries (w_fileStat p) s3)"

section \<open>GetLastErrnoValue\<close>

text \<open>
  The caller's buffer is a list of bytes; the C string in it ends before the first
  NUL. \<open>strcpy_s\<close> (C11 Annex K) is not part of the repository: it is a parameter,
  taking the buffer, its length and the source string to the buffer afterwards.
\<close>

definition c_string :: "string \<Rightarrow> string" where
  "c_string buf = takeWhile (\<lambda>c. c \<noteq> CHR 0x00) buf"

definition GetLastErrnoValue ::
  "(string \<Rightarrow> int \<Rightarrow> string \<Rightarrow> string) \<Rightarrow> string \<Rightarrow> int \<Rightarrow> state \<Rightarrow> int \<times> string" where
  "GetLastErrnoValue strcpy_s errnoStringBuffer errnoStringBufferLength s =
     (if lastErrnoValue s = 0
      then (lastErrnoValue s, errnoStringBuffer[0 := CHR 0x00])
      else (lastErrnoValue s, strcpy_s errnoStringBuffer errnoStringBufferLength (lastErrnoString s)))"

section \<open>Reading the trace\<close>

text \<open>The events an operation appended to the trace.\<close>

definition new_events :: "state \<Rightarrow> state \<Rightarrow> event list" where
  "new_events s s' = drop (length (trace s)) (trace s')"

text \<open>The calls that reported a failure, with the \<open>errno\<close> each one set.\<close>

fun failure_of :: "event \<Rightarrow> (libcall \<times> int) option" where
  "failure_of (Failed c e) = Some (c, e)"
| "failure_of _ = None"

definition failed_calls :: "event list \<Rightarrow> (libcall \<times> int) list" where
  "failed_calls tr = List.map_filter failure_of tr"

text \<open>
  The error kind that the comments of acl\_native.h attach to each call ("Indicates
  that the open() call failed", and so on).
\<close>

fun error_kind :: "libcall \<Rightarrow> native_error_code_t" where
  "error_kind C_open = NATIVE_ERROR_OPEN_FAILED"
| "error_kind C_fstat = NATIVE_ERROR_FSTAT_FAILED"
| "error_kind C_acl_get_fd = NATIVE_ERROR_GET_ACL_FAILED"
| "error_kind C_acl_get_entry = NATIVE_ERROR_GET_ACL_ENTRY_FAILED"
| "error_kind C_acl_get_tag_type = NATIVE_ERROR_GET_ACL_ENTRY_TAG_TYPE_FAILED"
| "error_kind C_acl_get_qualifier = NATIVE_ERROR_GET_ACL_ENTRY_QUALIFIER_FAILED"
| "error_kind C_acl_get_permset = NATIVE_ERROR_GET_ACL_ENTRY_PERMSET_FAILED"
| "error_kind C_acl_get_perm = NATIVE_ERROR_GET_ACL_ENTRY_PERM_FAILED"
| "error_kind C_fchown = NATIVE_ERROR_CHOWN_FAILED"
| "error_kind C_fchmod = NATIVE_ERROR_CHMOD_FAILED"
| "error_kind C_acl_init = NATIVE_ERROR_INIT_ACL_FAILED"
| "error_kind C_acl_create_entry = NATIVE_ERROR_CREATE_ACL_ENTRY_FAILED"
| "error_kind C_acl_set_tag_type = NATIVE_ERROR_SET_ACL_ENTRY_TAG_TYPE_FAILED"
| "error_kind C_acl_set_qualifier = NATIVE_ERROR_SET_ACL_ENTRY_QUALIFIER_FAILED"
| "error_kind C_acl_clear_perms = NATIVE_ERROR_CLEAR_ACL_ENTRY_PERMS_FAILED"
| "error_kind C_acl_add_perm = NATIVE_ERROR_ADD_ACL_ENTRY_PERM_FAILED"
| "error_kind C_acl_valid = NATIVE_ERROR_VALIDATE_ACL_FAILED"
| "error_kind C_acl_set_fd = NATIVE_ERROR_SET_ACL_FAILED"

text \<open>
  The error kinds of the steps of SetFilePermissionDataAndAcl that come after the mode
  change: allocation of the ACL, construction of an entry, validation, installation.
\<close>

definition acl_stage_error :: "native_error_code_t \<Rightarrow> bool" where
  "acl_stage_error rc =
     (rc = NATIVE_ERROR_INIT_ACL_FAILED \<or> rc = NATIVE_ERROR_CREATE_ACL_ENTRY_FAILED
      \<or> rc = NATIVE_ERROR_INVALID_TAG_TYPE \<or> rc = NATIVE_ERROR_SET_ACL_ENTRY_TAG_TYPE_FAILED
      \<or> rc = NATIVE_ERROR_SET_ACL_ENTRY_QUALIFIER_FAILED \<or> rc = NATIVE_ERROR_GET_ACL_ENTRY_PERMSET_FAILED
      \<or> rc = NATIVE_ERROR_CLEAR_ACL_ENTRY_PERMS_FAILED \<or> rc = NATIVE_ERROR_ADD_ACL_ENTRY_PERM_FAILED
      \<or> rc = NATIVE_ERROR_VALIDATE_ACL_FAILED \<or> rc = NATIVE_ERROR_SET_ACL_FAILED)"

text \<open>The error kinds that the loop over the entries returns (lines 281 to 357).\<close>

definition entry_error :: "native_error_code_t \<Rightarrow> bool" where
  "entry_error rc =
     (rc = NATIVE_ERROR_CREATE_ACL_ENTRY_FAILED
      \<or> rc = NATIVE_ERROR_INVALID_TAG_TYPE \<or> rc = NATIVE_ERROR_SET_ACL_ENTRY_TAG_TYPE_FAILED
      \<or> rc = NATIVE_ERROR_SET_ACL_ENTRY_QUALIFIER_FAILED \<or> rc = NATIVE_ERROR_GET_ACL_ENTRY_PERMSET_FAILED
      \<or> rc = NATIVE_ERROR_CLEAR_ACL_ENTRY_PERMS_FAILED \<or> rc = NATIVE_ERROR_ADD_ACL_ENTRY_PERM_FAILED)"

text \<open>The calls that change the owner, the group or the mode of the file.\<close>

fun is_ownership_change :: "event \<Rightarrow> bool" where
  "is_ownership_change (Fchown d u g r) = True"
| "is_ownership_change _ = False"

fun is_mode_change :: "event \<Rightarrow> bool" where
  "is_mode_change (Fchmod d m r) = True"
| "is_mode_change _ = False"

definition ownership_changes :: "event list \<Rightarrow> event list" where
  "ownership_changes tr = filter is_ownership_change tr"

definition mode_changes :: "event list \<Rightarrow> event list" where
  "mode_changes tr = filter is_mode_change tr"

definition metadata_changes :: "event list \<Rightarrow> event list" where
  "metadata_changes tr = filter (\<lambda>ev. is_ownership_change ev \<or> is_mode_change ev) tr"

text \<open>
  Resources: a descriptor is acquired by an \<open>open\<close> that returns a non-negative value
  and released by \<open>close\<close>; an ACL handle is acquired by an \<open>acl_get_fd\<close> or \<open>acl_init\<close>
  that returns a handle and released by \<open>acl_free\<close>. A trace releases what it acquires
  exactly once when the releases in it are, up to their order, the releases owed for
  its acquisitions.
\<close>

fun is_release :: "event \<Rightarrow> bool" where
  "is_release (Close d) = True"
| "is_release (AclFree h) = True"
| "is_release _ = False"

fun release_owed :: "event \<Rightarrow> event option" where
  "release_owed (Open path r) = (if 0 \<le> r then Some (Close r) else None)"
| "release_owed (AclGetFd d t (Some h)) = Some (AclFree h)"
| "release_owed (AclInit n (Some h)) = Some (AclFree h)"
| "release_owed _ = None"

definition releases :: "event list \<Rightarrow> event list" where
  "releases tr = filter is_release tr"

definition owed_releases :: "event list \<Rightarrow> event list" where
  "owed_releases tr = List.map_filter release_owed tr"

definition released_exactly_once :: "event list \<Rightarrow> bool" where
  "released_exactly_once tr = (mset (releases tr) = mset (owed_releases tr))"

section \<open>The exits of the operations\<close>

text \<open>
  The call that each error kind names, read off the comments of acl\_native.h the
  other way round; \<open>NATIVE_ERROR_SUCCESS\<close> and \<open>NATIVE_ERROR_INVALID_TAG_TYPE\<close> name
  no call.
\<close>

fun failing_call :: "native_error_code_t \<Rightarrow> libcall option" where
  "failing_call NATIVE_ERROR_SUCCESS = None"
| "failing_call NATIVE_ERROR_OPEN_FAILED = Some C_open"
| "failing_call NATIVE_ERROR_FSTAT_FAILED = Some C_fstat"
| "failing_call NATIVE_ERROR_GET_ACL_FAILED = Some C_acl_get_fd"
| "failing_call NATIVE_ERROR_GET_ACL_ENTRY_FAILED = Some C_acl_get_entry"
| "failing_call NATIVE_ERROR_GET_ACL_ENTRY_TAG_TYPE_FAILED = Some C_acl_get_tag_type"
| "failing_call NATIVE_ERROR_GET_ACL_ENTRY_QUALIFIER_FAILED = Some C_acl_get_qualifier"
| "failing_call NATIVE_ERROR_GET_ACL_ENTRY_PERMSET_FAILED = Some C_acl_get_permset"
| "failing_call NATIVE_ERROR_GET_ACL_ENTRY_PERM_FAILED = Some C_acl_get_perm"
| "failing_call NATIVE_ERROR_CHOWN_FAILED = Some C_fchown"
| "failing_call NATIVE_ERROR_CHMOD_FAILED = Some C_fchmod"
| "failing_call NATIVE_ERROR_INIT_ACL_FAILED = Some C_acl_init"
| "failing_call NATIVE_ERROR_CREATE_ACL_ENTRY_FAILED = Some C_acl_create_entry"
| "failing_call NATIVE_ERROR_INVALID_TAG_TYPE = None"
| "failing_call NATIVE_ERROR_SET_ACL_ENTRY_TAG_TYPE_FAILED = Some C_acl_set_tag_type"
| "failing_call NATIVE_ERROR_SET_ACL_ENTRY_QUALIFIER_FAILED = Some C_acl_set_qualifier"
| "failing_call NATIVE_ERROR_CLEAR_ACL_ENTRY_PERMS_FAILED = Some C_acl_clear_perms"
| "failing_call NATIVE_ERROR_ADD_ACL_ENTRY_PERM_FAILED = Some C_acl_add_perm"
| "failing_call NATIVE_ERROR_VALIDATE_ACL_FAILED = Some C_acl_valid"
| "failing_call NATIVE_ERROR_SET_ACL_FAILED = Some C_acl_set_fd"

text \<open>
  Every \<open>return\<close> through \<open>cleanup_with_error_code\<close> has one of two shapes: after a
  call failed with \<open>errno = e\<close> and \<open>store_errno\<close> ran, or with no failing call at all.
  \<open>exit_state rc e s\<close> is the state the function returns in, from the state \<open>s\<close> it
  was in before the failing call.
\<close>

definition exit_state :: "native_error_code_t \<Rightarrow> int \<Rightarrow> state \<Rightarrow> state" where
  "exit_state rc e s =
     (case failing_call rc of
        None \<Rightarrow> snd (cleanup_with_error_code rc s)
      | Some c \<Rightarrow> snd (cleanup_with_error_code rc (store_errno (fails c e s))))"

definition release_events :: "state \<Rightarrow> event list" where
  "release_events s =
     (case acl s of Some h \<Rightarrow> [AclFree h] | None \<Rightarrow> []) @ (if fd s \<noteq> 0 then [Close (fd s)] else [])"

text \<open>
  The state of an operation under way: the error value reset, the descriptor \<open>d\<close> and
  the handle \<open>a\<close> in their variables, the events \<open>evs\<close> appended to the trace.
\<close>

definition under_way :: "int \<Rightarrow> nat option \<Rightarrow> event list \<Rightarrow> state \<Rightarrow> state" where
  "under_way d a evs s = s\<lparr>fd := d, acl := a, lastErrnoValue := 0, trace := trace s @ evs\<rparr>"

text \<open>
  The exits of SetFilePermissionDataAndAcl after a successful \<open>open\<close>, as a relation
  between the answers of the platform, the state at the call, the error kind returned
  and the state at the return: one rule for each \<open>return\<close> of the function.
\<close>

definition changing :: "set_answers \<Rightarrow> native_permission_data_container_t \<Rightarrow> bool" where
  "changing p dc = (newOwner dc (w_fileStat p) \<noteq> - 1 \<or> newGroup dc (w_fileStat p) \<noteq> - 1)"

definition until_chown :: "set_answers \<Rightarrow> string \<Rightarrow> native_permission_data_container_t \<Rightarrow> event list" where
  "until_chown p f dc =
     Open f (fst (w_open p)) #
     (if changing p dc
      then [Fchown (fst (w_open p)) (newOwner dc (w_fileStat p)) (newGroup dc (w_fileStat p))
              (fst (w_fchown p))]
      else [])"

definition until_chmod :: "set_answers \<Rightarrow> string \<Rightarrow> native_permission_data_container_t \<Rightarrow> event list" where
  "until_chmod p f dc = until_chown p f dc @ [Fchmod (fst (w_open p)) (chmodBits dc) (fst (w_fchmod p))]"

definition until_init :: "set_answers \<Rightarrow> string \<Rightarrow> native_permission_data_container_t \<Rightarrow> event list" where
  "until_init p f dc = until_chmod p f dc @ [AclInit (aclSize dc) (pointer (w_acl_init p))]"

definition until_assign :: "set_answers \<Rightarrow> string \<Rightarrow> native_permission_data_container_t \<Rightarrow> event list" where
  "until_assign p f dc =
     until_init p f dc @ [AclSetFd (fst (w_open p)) (pointer (w_acl_init p)) (fst (w_acl_set_fd p))]"

inductive set_exit ::
  "set_answers \<Rightarrow> string \<Rightarrow> native_permission_data_container_t \<Rightarrow> state
     \<Rightarrow> native_error_code_t \<Rightarrow> state \<Rightarrow> bool"
  for p f dc s where
  fstat_failed:
    "fst (w_fstat p) < 0 \<Longrightarrow>
     set_exit p f dc s NATIVE_ERROR_FSTAT_FAILED
       (exit_state NATIVE_ERROR_FSTAT_FAILED (snd (w_fstat p))
          (under_way (fst (w_open p)) (acl s) [Open f (fst (w_open p))] s))"
| chown_failed:
    "\<not> fst (w_fstat p) < 0 \<Longrightarrow> changing p dc \<Longrightarrow> fst (w_fchown p) < 0 \<Longrightarrow>
     set_exit p f dc s NATIVE_ERROR_CHOWN_FAILED
       (exit_state NATIVE_ERROR_CHOWN_FAILED (snd (w_fchown p))
          (under_way (fst (w_open p)) (acl s) (until_chown p f dc) s))"
| chmod_failed:
    "\<not> fst (w_fstat p) < 0 \<Longrightarrow> \<not> (changing p dc \<and> fst (w_fchown p) < 0) \<Longrightarrow>
     fst (w_fchmod p) < 0 \<Longrightarrow>
     set_exit p f dc s NATIVE_ERROR_CHMOD_FAILED
       (exit_state NATIVE_ERROR_CHMOD_FAILED (snd (w_fchmod p))
          (under_way (fst (w_open p)) (acl s) (until_chmod p f dc) s))"
| init_failed:
    "\<not> fst (w_fstat p) < 0 \<Longrightarrow> \<not> (changing p dc \<and> fst (w_fchown p) < 0) \<Longrightarrow>
     \<not> fst (w_fchmod p) < 0 \<Longrightarrow> w_acl_init p = Inl e \<Longrightarrow>
     set_exit p f dc s NATIVE_ERROR_INIT_ACL_FAILED
       (exit_state NATIVE_ERROR_INIT_ACL_FAILED e
          (under_way (fst (w_open p)) None (until_init p f dc) s))"
| entry_failed:
    "\<not> fst (w_fstat p) < 0 \<Longrightarrow> \<not> (changing p dc \<and> fst (w_fchown p) < 0) \<Longrightarrow>
     \<not> fst (w_fchmod p) < 0 \<Longrightarrow> w_acl_init p = Inr h \<Longrightarrow> entry_error rc \<Longrightarrow>
     set_exit p f dc s rc
       (exit_state rc e (under_way (fst (w_open p)) (Some h) (until_init p f dc) s))"
| validate_failed:
    "\<not> fst (w_fstat p) < 0 \<Longrightarrow> \<not> (changing p dc \<and> fst (w_fchown p) < 0) \<Longrightarrow>
     \<not> fst (w_fchmod p) < 0 \<Longrightarrow> w_acl_init p = Inr h \<Longrightarrow> fst (w_acl_valid p) < 0 \<Longrightarrow>
     set_exit p f dc s NATIVE_ERROR_VALIDATE_ACL_FAILED
       (exit_state NATIVE_ERROR_VALIDATE_ACL_FAILED (snd (w_acl_valid p))
          (under_way (fst (w_open p)) (Some h) (until_init p f dc) s))"
| assign_failed:
    "\<not> fst (w_fstat p) < 0 \<Longrightarrow> \<not> (changing p dc \<and> fst (w_fchown p) < 0) \<Longrightarrow>
     \<not> fst (w_fchmod p) < 0 \<Longrightarrow> w_acl_init p = Inr h \<Longrightarrow> \<not> fst (w_acl_valid p) < 0 \<Longrightarrow>
     fst (w_acl_set_fd p) < 0 \<Longrightarrow>
     set_exit p f dc s NATIVE_ERROR_SET_ACL_FAILED
       (exit_state NATIVE_ERROR_SET_ACL_FAILED (snd (w_acl_set_fd p))
          (under_way (fst (w_open p)) (Some h) (until_assign p f dc) s))"
| succeeded:
    "\<not> fst (w_fstat p) < 0 \<Longrightarrow> \<not> (changing p dc \<and> fst (w_fchown p) < 0) \<Longrightarrow>
     \<not> fst (w_fchmod p) < 0 \<Longrightarrow> w_acl_init p = Inr h \<Longrightarrow> \<not> fst (w_acl_valid p) < 0 \<Longrightarrow>
     \<not> fst (w_acl_set_fd p) < 0 \<Longrightarrow>
     set_exit p f dc s NATIVE_ERROR_SUCCESS
       (exit_state NATIVE_ERROR_SUCCESS 0
          (under_way (fst (w_open p)) (Some h) (until_assign p f dc) s))"

text \<open>The events of OpenFileAndReadPermissionData once the ACL was asked for.\<close>

definition until_get_acl :: "open_answers \<Rightarrow> string \<Rightarrow> int32_t \<Rightarrow> event list" where
  "until_get_acl p f l =
     [Open f (fst (o_open p)), AclGetFd (fst (o_open p)) (aclType l) (pointer (o_acl_get_fd p))]"

text \<open>
  What ReadFileAclAndClose leaves in a record of the array: after all its queries
  succeeded, and at the moment one of them fails.
\<close>

definition qualifier_of :: "entry_answers \<Rightarrow> int32_t" where
  "qualifier_of a =
     (if has_qualifier (a_tag a) then (case a_get_qualifier a of Inr q \<Rightarrow> q | Inl e \<Rightarrow> 0) else 0)"

definition decoded :: "entry_answers \<Rightarrow> native_acl_entry_t \<Rightarrow> native_acl_entry_t" where
  "decoded a e =
     (set_tag_type (a_tag a) e)
       \<lparr>tagQualifier := qualifier_of a,
        permissions := entry_permissions (fst (a_get_perm_read a)) (fst (a_get_perm_write a))
                         (fst (a_get_perm_execute a))\<rparr>"

definition tag_query_fails :: "entry_answers \<Rightarrow> bool" where
  "tag_query_fails a = (fst (a_get_tag_type a) < 0)"

definition qualifier_query_fails :: "entry_answers \<Rightarrow> bool" where
  "qualifier_query_fails a = (has_qualifier (a_tag a) \<and> pointer (a_get_qualifier a) = None)"

definition permission_query_fails :: "entry_answers \<Rightarrow> bool" where
  "permission_query_fails a =
     (fst (a_get_permset a) < 0 \<or> fst (a_get_perm_read a) < 0 \<or> fst (a_get_perm_write a) < 0
      \<or> fst (a_get_perm_execute a) < 0)"

definition decoding_fails :: "entry_answers \<Rightarrow> bool" where
  "decoding_fails a = (tag_query_fails a \<or> qualifier_query_fails a \<or> permission_query_fails a)"

definition partly_decoded :: "entry_answers \<Rightarrow> native_acl_entry_t \<Rightarrow> native_acl_entry_t" where
  "partly_decoded a e =
     (if tag_query_fails a then e
      else if qualifier_query_fails a then set_tag_type (a_tag a) e
      else (set_tag_type (a_tag a) e)\<lparr>tagQualifier := qualifier_of a\<rparr>)"

definition decoding_error :: "entry_answers \<Rightarrow> native_error_code_t" where
  "decoding_error a =
     (if tag_query_fails a then NATIVE_ERROR_GET_ACL_ENTRY_TAG_TYPE_FAILED
      else if qualifier_query_fails a then NATIVE_ERROR_GET_ACL_ENTRY_QUALIFIER_FAILED
      else if fst (a_get_permset a) < 0 then NATIVE_ERROR_GET_ACL_ENTRY_PERMSET_FAILED
      else NATIVE_ERROR_GET_ACL_ENTRY_PERM_FAILED)"

text \<open>The events of the successful decoding of entries: one release per qualifier read.\<close>

definition qualifier_release :: "entry_answers \<Rightarrow> event list" where
  "qualifier_release a = (if has_qualifier (a_tag a) then [AclFreeQualifier] else [])"

text \<open>
  The loop of ReadFileAclAndClose without the state: the \<open>errno\<close> of the query that
  fails on an entry, the events of decoding one entry and of the walk up to the first
  entry that fails, that entry, and the array the loop leaves.
\<close>

definition decoding_errno :: "entry_answers \<Rightarrow> int" where
  "decoding_errno a =
     (if tag_query_fails a then snd (a_get_tag_type a)
      else if qualifier_query_fails a then (case a_get_qualifier a of Inl x \<Rightarrow> x | Inr q \<Rightarrow> 0)
      else if fst (a_get_permset a) < 0 then snd (a_get_permset a)
      else if fst (a_get_perm_read a) < 0 then snd (a_get_perm_read a)
      else if fst (a_get_perm_write a) < 0 then snd (a_get_perm_write a)
      else snd (a_get_perm_execute a))"

definition decoding_events :: "entry_answers \<Rightarrow> event list" where
  "decoding_events a =
     (if tag_query_fails a \<or> qualifier_query_fails a then [] else qualifier_release a)"

fun first_failure :: "entry_answers list \<Rightarrow> entry_answers option" where
  "first_failure [] = None"
| "first_failure (a # as) = (if decoding_fails a then Some a else first_failure as)"

fun walk_events :: "entry_answers list \<Rightarrow> event list" where
  "walk_events [] = []"
| "walk_events (a # as) = decoding_events a @ (if decoding_fails a then [] else walk_events as)"

fun decode_all :: "entry_answers list \<Rightarrow> nat \<Rightarrow> entry_array \<Rightarrow> entry_array" where
  "decode_all [] i es = es"
| "decode_all (a # as) i es =
     (if decoding_fails a then es(i := partly_decoded a (es i))
      else decode_all as (Suc i) (es(i := decoded a (es i))))"

text \<open>
  The qualifiers that the loop frees on its way may each change \<open>errno\<close> and nothing
  else: \<open>errno_left ev evs s\<close> is \<open>s\<close> with the \<open>errno\<close> that the discarded call \<open>ev\<close> leaves
  after the events \<open>evs\<close>, and \<open>walked as evs s\<close> is \<open>s\<close> with the \<open>errno\<close> that the walk of
  \<open>as\<close> leaves, up to the first entry that fails.
\<close>

definition errno_left :: "event \<Rightarrow> event list \<Rightarrow> state \<Rightarrow> state" where
  "errno_left ev evs s =
     s\<lparr>errno := (case discarded s (trace s @ evs @ [ev]) of None \<Rightarrow> errno s | Some e \<Rightarrow> e)\<rparr>"

definition entry_walked :: "entry_answers \<Rightarrow> event list \<Rightarrow> state \<Rightarrow> state" where
  "entry_walked a evs s = (if decoding_events a = [] then s else errno_left AclFreeQualifier evs s)"

fun walked :: "entry_answers list \<Rightarrow> event list \<Rightarrow> state \<Rightarrow> state" where
  "walked [] evs s = s"
| "walked (a # as) evs s =
     (if decoding_fails a then entry_walked a evs s
      else walked as (evs @ decoding_events a) (entry_walked a evs s))"

text \<open>The events of an exit: the failure recorded, then the releases of the cleanup.\<close>

definition exit_events :: "native_error_code_t \<Rightarrow> int \<Rightarrow> int \<Rightarrow> nat option \<Rightarrow> event list" where
  "exit_events rc e d a =
     (case failing_call rc of None \<Rightarrow> [] | Some c \<Rightarrow> [Failed c e])
     @ (case a of Some h \<Rightarrow> [AclFree h] | None \<Rightarrow> []) @ (if d \<noteq> 0 then [Close d] else [])"

text \<open>
  The Error Channel after a return: when the error kind names a call, that call is the
  one tested call of the operation that failed, the error value is the \<open>errno\<close> it set,
  and the buffer holds what \<open>strerror_r\<close> made of it for that \<open>errno\<close>; when it names
  none, no tested call failed, the error value is 0 and the buffer is as it was.
\<close>

definition error_captured :: "state \<Rightarrow> native_error_code_t \<Rightarrow> state \<Rightarrow> bool" where
  "error_captured s rc s' =
     (case failing_call rc of
        Some c \<Rightarrow> failed_calls (new_events s s') = [(c, lastErrnoValue s')]
                 \<and> lastErrnoString s' = strerror_r s (lastErrnoValue s') (lastErrnoString s)
      | None \<Rightarrow> failed_calls (new_events s s') = [] \<and> lastErrnoValue s' = 0
                 \<and> lastErrnoString s' = lastErrnoString s)"

text \<open>
  The order of a failing exit in the trace: up to the failure no tested call has failed
  and nothing was released; after it come the releases of the cleanup and nothing else.
\<close>

definition failure_then_cleanup :: "event list \<Rightarrow> bool" where
  "failure_then_cleanup tr =
     (dropWhile (\<lambda>ev. failure_of ev = None) tr =
        (case failed_calls tr of [] \<Rightarrow> [] | (c, e) # others \<Rightarrow> Failed c e # releases tr))"

text \<open>
  What GetLastErrnoValue gives the caller after a return, told from the trace of the
  operation alone: after a tested call failed with \<open>errno = e\<close>, the value \<open>e\<close> and the text
  that \<open>strerror_r\<close> made of the buffer for \<open>e\<close>; after no failure, 0 and a NUL in the first
  byte.
\<close>

definition error_reported ::
  "(string \<Rightarrow> int \<Rightarrow> string \<Rightarrow> string) \<Rightarrow> string \<Rightarrow> int \<Rightarrow> state \<Rightarrow> state \<Rightarrow> bool" where
  "error_reported cp buf n s s' =
     (GetLastErrnoValue cp buf n s' =
        (case failed_calls (new_events s s') of
           [] \<Rightarrow> (0, buf[0 := CHR 0x00])
         | (c, e) # others \<Rightarrow>
             (e, if e = 0 then buf[0 := CHR 0x00]
                 else cp buf n (strerror_r s e (lastErrnoString s)))))"

section \<open>Concrete runs\<close>

text \<open>
  The state before the first call: the initialisers of lines 15 to 24, an \<open>errno\<close> of 0
  and an empty trace; and the state a failed earlier operation may have left in the
  error variables.
\<close>

definition initially :: state where
  "initially = \<lparr>fd = 0, acl = None, lastErrnoValue = 0, lastErrnoString = [], errno = 0,
                 strerror_r = (\<lambda>e old. if e = 13 then ''Permission denied'' else ''Error''),
                 discarded = (\<lambda>tr. None),
                 trace = []\<rparr>"

definition after_an_error :: state where
  "after_an_error = initially\<lparr>lastErrnoValue := 13, lastErrnoString := ''Permission denied'',
                               errno := 13\<rparr>"

text \<open>An ACL of the three entries every file has, all queries on it succeeding.\<close>

definition plain_entry :: "acl_tag_t \<Rightarrow> entry_answers" where
  "plain_entry t = \<lparr>a_get_tag_type = (0, 0), a_tag = t, a_get_qualifier = Inr 1000,
                    a_get_permset = (0, 0), a_get_perm_read = (1, 0), a_get_perm_write = (1, 0),
                    a_get_perm_execute = (0, 0)\<rparr>"

definition minimal_walk :: acl_walk where
  "minimal_walk =
     \<lparr>walk_entries = [plain_entry ACL_USER_OBJ, plain_entry ACL_GROUP_OBJ, plain_entry ACL_OTHER],
      walk_end = None\<rparr>"

text \<open>
  A file of user 1000 and group 100 with mode 0100644, opened as descriptor 3; the
  member that line 78 names holds 0.
\<close>

definition open_ok :: open_answers where
  "open_ok = \<lparr>o_open = (3, 0), o_fstat = (0, 0),
              o_fileStat = \<lparr>st_uid = 1000, st_gid = 100, st_git = 0, st_mode = 33188\<rparr>,
              o_acl_get_fd = Inr 7, o_walk = minimal_walk\<rparr>"

definition blank :: native_permission_data_container_t where
  "blank = \<lparr>ownerId = 0, ownerPermissions = 0, groupId = 0, groupPermissions = 0,
            otherPermissions = 0, aclSize = 0\<rparr>"

text \<open>
  A request to keep owner 1000 and group 100 and set mode 0644 with an ACL of one entry,
  and a platform on which every call of SetFilePermissionDataAndAcl succeeds.
\<close>

definition build_ok :: build_answers where
  "build_ok = \<lparr>b_acl_create_entry = (0, 0), b_acl_set_tag_type = (0, 0), b_acl_set_qualifier = (0, 0),
               b_acl_get_permset = (0, 0), b_acl_clear_perms = (0, 0), b_acl_add_perm_read = (0, 0),
               b_acl_add_perm_write = (0, 0), b_acl_add_perm_execute = (0, 0)\<rparr>"

definition set_ok :: set_answers where
  "set_ok = \<lparr>w_open = (3, 0), w_fstat = (0, 0),
             w_fileStat = \<lparr>st_uid = 1000, st_gid = 100, st_git = 0, st_mode = 33188\<rparr>,
             w_fchown = (0, 0), w_fchmod = (0, 0), w_acl_init = Inr 7, w_entry = (\<lambda>i. build_ok),
             w_acl_valid = (0, 0), w_acl_set_fd = (0, 0)\<rparr>"

definition entry_of :: "native_acl_entry_tag_type_t \<Rightarrow> native_acl_entry_t" where
  "entry_of t = \<lparr>tagType = t, tagQualifier = 0, permissions = 6\<rparr>"

definition request :: native_permission_data_container_t where
  "request = \<lparr>ownerId = 1000, ownerPermissions = 6, groupId = 100, groupPermissions = 4,
              otherPermissions = 4, aclSize = 1\<rparr>"

text \<open>Failures: \<open>fstat\<close> denied, a qualifier that cannot be read, an ACL that is not valid.\<close>

definition denied_fstat :: open_answers where
  "denied_fstat = open_ok\<lparr>o_fstat := (- 1, 13)\<rparr>"

definition broken_walk :: acl_walk where
  "broken_walk = \<lparr>walk_entries = [plain_entry ACL_USER_OBJ, (plain_entry ACL_USER)\<lparr>a_get_qualifier := Inl 22\<rparr>],
                  walk_end = None\<rparr>"

definition rejected_acl :: set_answers where
  "rejected_acl = set_ok\<lparr>w_acl_valid := (- 1, 22)\<rparr>"

definition loaded :: state where
  "loaded = initially\<lparr>fd := 3, acl := Some 7\<rparr>"

text \<open>The same request with owner id \<open>-1\<close>, the value \<open>fchown\<close> takes for "unchanged".\<close>

definition request_sentinel :: native_permission_data_container_t where
  "request_sentinel = request\<lparr>ownerId := - 1\<rparr>"

text \<open>An ACL whose first entry cannot be asked for its tag, and a path that does not open.\<close>

definition unreadable_tag :: acl_walk where
  "unreadable_tag = \<lparr>walk_entries = [(plain_entry ACL_USER_OBJ)\<lparr>a_get_tag_type := (- 1, 22)\<rparr>],
                     walk_end = None\<rparr>"

definition missing_file :: open_answers where
  "missing_file = open_ok\<lparr>o_open := (- 1, 2)\<rparr>"

text \<open>A file like the first with mode 06754: set-user-id and set-group-id, \<open>rwxr-xr--\<close>.\<close>

definition open_setid :: open_answers where
  "open_setid = open_ok\<lparr>o_fileStat := \<lparr>st_uid = 1000, st_gid = 100, st_git = 0, st_mode = 3564\<rparr>\<rparr>"

text \<open>A platform on which every \<open>close\<close> fails with \<open>EIO\<close> (5).\<close>

definition close_fails :: state where
  "close_fails = initially\<lparr>discarded := (\<lambda>tr. case last tr of Close d \<Rightarrow> Some 5 | _ \<Rightarrow> None)\<rparr>"

section \<open>The permission codec is a bijection on the twelve mode bits\<close>

lemmas permission_defs = FILE_PERMISSION_NONE_def FILE_PERMISSION_EXECUTE_def
  FILE_PERMISSION_WRITE_def FILE_PERMISSION_READ_def FILE_PERMISSION_SETID_def
  FILE_PERMISSION_STICKY_def

lemmas mode_bit_defs = S_ISUID_def S_ISGID_def S_ISVTX_def S_IRUSR_def S_IWUSR_def S_IXUSR_def
  S_IRGRP_def S_IWGRP_def S_IXGRP_def S_IROTH_def S_IWOTH_def S_IXOTH_def

lemma test_power_of_two: "n < 32 \<Longrightarrow> (w AND (2 ^ n :: 32 word) \<noteq> 0) = bit w n"
  by (metis and_exp_eq_0_iff_not_bit)

lemma test_single_bit:
  "(w AND (1::32 word) \<noteq> 0) = bit w 0"
  "(w AND (2::32 word) \<noteq> 0) = bit w 1"
  "(w AND (4::32 word) \<noteq> 0) = bit w 2"
  "(w AND (8::32 word) \<noteq> 0) = bit w 3"
  "(w AND (16::32 word) \<noteq> 0) = bit w 4"
  "(w AND (32::32 word) \<noteq> 0) = bit w 5"
  "(w AND (64::32 word) \<noteq> 0) = bit w 6"
  "(w AND (128::32 word) \<noteq> 0) = bit w 7"
  "(w AND (256::32 word) \<noteq> 0) = bit w 8"
  "(w AND (512::32 word) \<noteq> 0) = bit w 9"
  "(w AND (1024::32 word) \<noteq> 0) = bit w 10"
  "(w AND (2048::32 word) \<noteq> 0) = bit w 11"
  using test_power_of_two[of 0 w] test_power_of_two[of 1 w] test_power_of_two[of 2 w]
    test_power_of_two[of 3 w] test_power_of_two[of 4 w] test_power_of_two[of 5 w]
    test_power_of_two[of 6 w] test_power_of_two[of 7 w] test_power_of_two[of 8 w]
    test_power_of_two[of 9 w] test_power_of_two[of 10 w] test_power_of_two[of 11 w]
  by simp_all

lemma bit_power_of_two: "bit (2 ^ k :: 32 word) n = (n = k \<and> k < 32)"
  by (auto simp: bit_simps)

lemma bit_single:
  "bit (1::32 word) n = (n = 0)"
  "bit (2::32 word) n = (n = 1)"
  "bit (4::32 word) n = (n = 2)"
  "bit (8::32 word) n = (n = 3)"
  "bit (16::32 word) n = (n = 4)"
  "bit (32::32 word) n = (n = 5)"
  "bit (64::32 word) n = (n = 6)"
  "bit (128::32 word) n = (n = 7)"
  "bit (256::32 word) n = (n = 8)"
  "bit (512::32 word) n = (n = 9)"
  "bit (1024::32 word) n = (n = 10)"
  "bit (2048::32 word) n = (n = 11)"
  using bit_power_of_two[of 0 n] bit_power_of_two[of 1 n] bit_power_of_two[of 2 n]
    bit_power_of_two[of 3 n] bit_power_of_two[of 4 n] bit_power_of_two[of 5 n]
    bit_power_of_two[of 6 n] bit_power_of_two[of 7 n] bit_power_of_two[of 8 n]
    bit_power_of_two[of 9 n] bit_power_of_two[of 10 n] bit_power_of_two[of 11 n]
  by simp_all

lemma bit_conditional: "bit (if c then a else (0::32 word)) n = (c \<and> bit a n)"
  by simp

lemma bit_ownerPermissions_of_mode:
  "bit (ownerPermissions_of_mode m) n =
     (bit m 8 \<and> n = 2 \<or> bit m 7 \<and> n = 1 \<or> bit m 6 \<and> n = 0 \<or> bit m 11 \<and> n = 3 \<or> bit m 9 \<and> n = 4)"
  unfolding ownerPermissions_of_mode_def permission_defs mode_bit_defs
  by (simp only: test_single_bit bit_or_iff bit_conditional bit_single disj_assoc)

lemma bit_groupPermissions_of_mode:
  "bit (groupPermissions_of_mode m) n =
     (bit m 5 \<and> n = 2 \<or> bit m 4 \<and> n = 1 \<or> bit m 3 \<and> n = 0 \<or> bit m 10 \<and> n = 3)"
  unfolding groupPermissions_of_mode_def permission_defs mode_bit_defs
  by (simp only: test_single_bit bit_or_iff bit_conditional bit_single disj_assoc)

lemma bit_otherPermissions_of_mode:
  "bit (otherPermissions_of_mode m) n = (bit m 2 \<and> n = 2 \<or> bit m 1 \<and> n = 1 \<or> bit m 0 \<and> n = 0)"
  unfolding otherPermissions_of_mode_def permission_defs mode_bit_defs
  by (simp only: test_single_bit bit_or_iff bit_conditional bit_single disj_assoc)

lemma bit_encodeMode:
  "bit (encodeMode p q r) n =
    (bit p 2 \<and> n = 8 \<or> bit p 1 \<and> n = 7 \<or> bit p 0 \<and> n = 6 \<or> bit p 3 \<and> n = 11 \<or> bit p 4 \<and> n = 9
     \<or> bit q 2 \<and> n = 5 \<or> bit q 1 \<and> n = 4 \<or> bit q 0 \<and> n = 3 \<or> bit q 3 \<and> n = 10
     \<or> bit r 2 \<and> n = 2 \<or> bit r 1 \<and> n = 1 \<or> bit r 0 \<and> n = 0)"
  unfolding encodeMode_def permission_defs mode_bit_defs
  by (simp only: test_single_bit bit_or_iff bit_conditional bit_single disj_assoc)

lemma below_12: "n < (12::nat) \<longleftrightarrow>
    n = 11 \<or> n = 10 \<or> n = 9 \<or> n = 8 \<or> n = 7 \<or> n = 6 \<or> n = 5 \<or> n = 4 \<or> n = 3 \<or> n = 2 \<or> n = 1 \<or> n = 0"
  by arith

lemma below_5: "n < (5::nat) \<longleftrightarrow> n = 4 \<or> n = 3 \<or> n = 2 \<or> n = 1 \<or> n = 0"
  by arith

lemma below_4: "n < (4::nat) \<longleftrightarrow> n = 3 \<or> n = 2 \<or> n = 1 \<or> n = 0"
  by arith

lemma below_3: "n < (3::nat) \<longleftrightarrow> n = 2 \<or> n = 1 \<or> n = 0"
  by arith

lemma bit_4095: "bit (4095 :: 32 word) n = (n < 12)"
proof -
  have e: "(mask 12 :: 32 word) = 4095" by (simp add: mask_eq_exp_minus_1)
  have "bit (mask 12 :: 32 word) n = (n < 12)" by (simp only: bit_mask_iff) auto
  then show ?thesis unfolding e .
qed

lemma bit_31: "bit (31 :: 32 word) n = (n < 5)"
proof -
  have e: "(mask 5 :: 32 word) = 31" by (simp add: mask_eq_exp_minus_1)
  have "bit (mask 5 :: 32 word) n = (n < 5)" by (simp only: bit_mask_iff) auto
  then show ?thesis unfolding e .
qed

lemma bit_15: "bit (15 :: 32 word) n = (n < 4)"
proof -
  have e: "(mask 4 :: 32 word) = 15" by (simp add: mask_eq_exp_minus_1)
  have "bit (mask 4 :: 32 word) n = (n < 4)" by (simp only: bit_mask_iff) auto
  then show ?thesis unfolding e .
qed

lemma bit_7: "bit (7 :: 32 word) n = (n < 3)"
proof -
  have e: "(mask 3 :: 32 word) = 7" by (simp add: mask_eq_exp_minus_1)
  have "bit (mask 3 :: 32 word) n = (n < 3)" by (simp only: bit_mask_iff) auto
  then show ?thesis unfolding e .
qed

lemma encode_of_decoded:
  "encodeMode (ownerPermissions_of_mode m) (groupPermissions_of_mode m) (otherPermissions_of_mode m)
     = m AND 4095"
proof (rule bit_word_eqI)
  fix n assume "n < LENGTH(32)"
  show "bit (encodeMode (ownerPermissions_of_mode m) (groupPermissions_of_mode m)
               (otherPermissions_of_mode m)) n = bit (m AND 4095) n"
    unfolding bit_encodeMode bit_ownerPermissions_of_mode bit_groupPermissions_of_mode
      bit_otherPermissions_of_mode bit_and_iff bit_4095 below_12
    by auto
qed

lemma owner_of_encoded: "ownerPermissions_of_mode (encodeMode p q r) = p AND 31"
proof (rule bit_word_eqI)
  fix n assume "n < LENGTH(32)"
  show "bit (ownerPermissions_of_mode (encodeMode p q r)) n = bit (p AND 31) n"
    unfolding bit_encodeMode bit_ownerPermissions_of_mode bit_and_iff bit_31 below_5
    by auto
qed

lemma group_of_encoded: "groupPermissions_of_mode (encodeMode p q r) = q AND 15"
proof (rule bit_word_eqI)
  fix n assume "n < LENGTH(32)"
  show "bit (groupPermissions_of_mode (encodeMode p q r)) n = bit (q AND 15) n"
    unfolding bit_encodeMode bit_groupPermissions_of_mode bit_and_iff bit_15 below_4
    by auto
qed

lemma other_of_encoded: "otherPermissions_of_mode (encodeMode p q r) = r AND 7"
proof (rule bit_word_eqI)
  fix n assume "n < LENGTH(32)"
  show "bit (otherPermissions_of_mode (encodeMode p q r)) n = bit (r AND 7) n"
    unfolding bit_encodeMode bit_otherPermissions_of_mode bit_and_iff bit_7 below_3
    by auto
qed

text \<open>
  C1. A triple of permission sets restricted to the bits its class can represent
  (read, write, execute for all three: 7; with SetId for owner and group: 15; with
  Sticky for the owner: 31) is what decoding its encoding gives back; and a mode
  bitfield of permission bits only (the twelve bits of 07777) is what encoding its
  decoding gives back.
\<close>

theorem mode_round_trip:
  "(p AND 31 = p \<and> q AND 15 = q \<and> r AND 7 = r \<longrightarrow> decodeMode (encodeMode p q r) = (p, q, r))
   \<and> (m AND 4095 = m \<longrightarrow> encode_decoded m = m)"
  by (simp add: decodeMode_def encode_decoded_def encode_of_decoded owner_of_encoded
      group_of_encoded other_of_encoded)

theorem mode_round_trip_witness:
  "((22::32 word) AND 31 = 22 \<and> (13::32 word) AND 15 = 13 \<and> (5::32 word) AND 7 = 5)
   \<and> decodeMode (encodeMode 22 13 5) = (22, 13, 5)
   \<and> (3565::32 word) AND 4095 = 3565 \<and> encode_decoded 3565 = 3565"
  using mode_round_trip [of 22 13 5 3565] by simp

section \<open>How the operations run\<close>

subsection \<open>Calls, states and exits\<close>

lemma call_int_cases:
  "fst r < 0 \<Longrightarrow> call_int c r s = fails c (snd r) s"
  "\<not> fst r < 0 \<Longrightarrow> call_int c r s = s"
  by (simp_all add: call_int_def)

lemma call_ptr_cases:
  "call_ptr c (Inl e) s = fails c e s"
  "call_ptr c (Inr v) s = s"
  by (simp_all add: call_ptr_def)

lemma pointer_cases:
  "pointer (Inl e) = None" "pointer (Inr v) = Some v"
  by (simp_all add: pointer_def)

lemma cleanup_eq:
  "cleanup_with_error_code rc s = (rc', s') \<longleftrightarrow> rc' = rc \<and> s' = snd (cleanup_with_error_code rc s)"
  by (auto simp: cleanup_with_error_code_def Let_def)

lemma failing_call_Some: "(failing_call rc = Some c) = (rc = error_kind c)"
  by (cases rc; cases c) simp_all

lemma failed_exit:
  "failing_call rc = Some c \<Longrightarrow>
     cleanup_with_error_code rc (store_errno (fails c e s)) = (rc, exit_state rc e s)"
  by (simp add: exit_state_def cleanup_eq)

lemma plain_exit:
  "failing_call rc = None \<Longrightarrow> cleanup_with_error_code rc s = (rc, exit_state rc e s)"
  by (simp add: exit_state_def cleanup_eq)

lemma exit_state_fields:
  "fd (exit_state rc e s) = 0"
  "acl (exit_state rc e s) = None"
  "strerror_r (exit_state rc e s) = strerror_r s"
  "discarded (exit_state rc e s) = discarded s"
  "lastErrnoValue (exit_state rc e s) = (case failing_call rc of None \<Rightarrow> lastErrnoValue s | Some c \<Rightarrow> e)"
  "lastErrnoString (exit_state rc e s) =
     (case failing_call rc of None \<Rightarrow> lastErrnoString s | Some c \<Rightarrow> strerror_r s e (lastErrnoString s))"
  "trace (exit_state rc e s) =
     trace s @ (case failing_call rc of None \<Rightarrow> [] | Some c \<Rightarrow> [Failed c e]) @ release_events s"
  by (simp_all add: exit_state_def release_events_def cleanup_with_error_code_def Let_def
      store_errno_def fails_def call_discarded_def split: option.splits)

lemma under_way_fields:
  "fd (under_way d a evs s) = d"
  "acl (under_way d a evs s) = a"
  "strerror_r (under_way d a evs s) = strerror_r s"
  "discarded (under_way d a evs s) = discarded s"
  "errno (under_way d a evs s) = errno s"
  "lastErrnoValue (under_way d a evs s) = 0"
  "lastErrnoString (under_way d a evs s) = lastErrnoString s"
  "trace (under_way d a evs s) = trace s @ evs"
  by (simp_all add: under_way_def)

lemma emit_under_way: "emit ev (under_way d a evs s) = under_way d a (evs @ [ev]) s"
  by (simp add: emit_def under_way_def)

lemma acl_under_way: "(under_way d a evs s)\<lparr>acl := a'\<rparr> = under_way d a' evs s"
  by (simp add: under_way_def)

lemma fails_fields:
  "fd (fails c e s) = fd s" "acl (fails c e s) = acl s" "lastErrnoValue (fails c e s) = lastErrnoValue s"
  "lastErrnoString (fails c e s) = lastErrnoString s" "errno (fails c e s) = e"
  "strerror_r (fails c e s) = strerror_r s" "discarded (fails c e s) = discarded s"
  "trace (fails c e s) = trace s @ [Failed c e]"
  by (simp_all add: fails_def)

lemma fails_acl: "(fails c e s)\<lparr>acl := a\<rparr> = fails c e (s\<lparr>acl := a\<rparr>)"
  by (simp add: fails_def)

lemma build_entry_Inr: "build_entry b en s = Inr s' \<Longrightarrow> s' = s"
  by (auto simp: build_entry_def Let_def call_int_cases split: if_splits option.splits)

lemma build_entry_Inl:
  "build_entry b en s = Inl (rc, s') \<Longrightarrow> entry_error rc \<and> (\<exists>e. s' = exit_state rc e s)"
  unfolding build_entry_def Let_def entry_error_def
  by (auto simp: failed_exit plain_exit[where e=0] call_int_cases split: if_splits option.splits)

lemma build_entries_Inr: "build_entries b es i k s = Inr s' \<Longrightarrow> s' = s"
  by (induction k arbitrary: i s) (auto split: sum.splits dest: build_entry_Inr)

lemma build_entries_Inl:
  "build_entries b es i k s = Inl (rc, s') \<Longrightarrow> entry_error rc \<and> (\<exists>e. s' = exit_state rc e s)"
proof (induction k arbitrary: i s)
  case 0
  then show ?case by simp
next
  case (Suc k)
  show ?case
  proof (cases "build_entry (b i) (es i) s")
    case (Inl r)
    with Suc.prems have "build_entry (b i) (es i) s = Inl (rc, s')" by simp
    then show ?thesis by (rule build_entry_Inl)
  next
    case (Inr s1)
    then have "s1 = s" by (rule build_entry_Inr)
    with Inr Suc.prems have "build_entries b es (Suc i) k s = Inl (rc, s')" by simp
    then show ?thesis by (rule Suc.IH)
  qed
qed

subsection \<open>SetFilePermissionDataAndAcl, part by part\<close>

text \<open>Each part, started in a state under way, exits or goes on to the next part.\<close>

lemma validate_and_assign_under_way:
  "validate_and_assign p (under_way d a evs s) =
     (if fst (w_acl_valid p) < 0
      then (NATIVE_ERROR_VALIDATE_ACL_FAILED,
            exit_state NATIVE_ERROR_VALIDATE_ACL_FAILED (snd (w_acl_valid p)) (under_way d a evs s))
      else if fst (w_acl_set_fd p) < 0
      then (NATIVE_ERROR_SET_ACL_FAILED,
            exit_state NATIVE_ERROR_SET_ACL_FAILED (snd (w_acl_set_fd p))
              (under_way d a (evs @ [AclSetFd d a (fst (w_acl_set_fd p))]) s))
      else (NATIVE_ERROR_SUCCESS,
            exit_state NATIVE_ERROR_SUCCESS 0
              (under_way d a (evs @ [AclSetFd d a (fst (w_acl_set_fd p))]) s)))"
  unfolding validate_and_assign_def Let_def
  by (simp add: call_int_cases failed_exit plain_exit[where e=0] emit_under_way under_way_fields)

lemma create_and_build_under_way:
  assumes "create_and_build p dc es (under_way d a evs s) = (rc, s')"
  shows "(\<exists>e. w_acl_init p = Inl e \<and> rc = NATIVE_ERROR_INIT_ACL_FAILED
            \<and> s' = exit_state rc e (under_way d None (evs @ [AclInit (aclSize dc) None]) s))
       \<or> (\<exists>h. w_acl_init p = Inr h \<and>
            ((entry_error rc
                \<and> (\<exists>e. s' = exit_state rc e (under_way d (Some h) (evs @ [AclInit (aclSize dc) (Some h)]) s)))
             \<or> validate_and_assign p (under_way d (Some h) (evs @ [AclInit (aclSize dc) (Some h)]) s)
                 = (rc, s')))"
proof (cases "w_acl_init p")
  case (Inl e)
  with assms show ?thesis
    unfolding create_and_build_def Let_def
    by (simp add: call_ptr_cases pointer_cases fails_acl fails_fields under_way_fields failed_exit
        emit_under_way acl_under_way)
next
  case (Inr h)
  let ?S = "under_way d (Some h) (evs @ [AclInit (aclSize dc) (Some h)]) s"
  from Inr assms have r: "(case build_entries (w_entry p) es 0 (nat (sint (aclSize dc))) ?S of
          Inl r \<Rightarrow> r | Inr s2 \<Rightarrow> validate_and_assign p s2) = (rc, s')"
    unfolding create_and_build_def Let_def
    by (simp add: call_ptr_cases pointer_cases emit_under_way acl_under_way under_way_fields)
  show ?thesis
  proof (cases "build_entries (w_entry p) es 0 (nat (sint (aclSize dc))) ?S")
    case (Inl x)
    with r have "build_entries (w_entry p) es 0 (nat (sint (aclSize dc))) ?S = Inl (rc, s')" by simp
    from build_entries_Inl[OF this] Inr show ?thesis by simp
  next
    case (Inr s2)
    then have "s2 = ?S" by (rule build_entries_Inr)
    with r Inr \<open>w_acl_init p = Inr h\<close> show ?thesis by simp
  qed
qed

lemma change_mode_under_way:
  "change_mode p dc es (under_way d a evs s) =
     (if fst (w_fchmod p) < 0
      then (NATIVE_ERROR_CHMOD_FAILED,
            exit_state NATIVE_ERROR_CHMOD_FAILED (snd (w_fchmod p))
              (under_way d a (evs @ [Fchmod d (chmodBits dc) (fst (w_fchmod p))]) s))
      else create_and_build p dc es (under_way d a (evs @ [Fchmod d (chmodBits dc) (fst (w_fchmod p))]) s))"
  unfolding change_mode_def Let_def
  by (simp add: call_int_cases failed_exit emit_under_way under_way_fields)

lemma change_owner_and_group_under_way:
  "change_owner_and_group p dc es (w_fileStat p) (under_way (fst (w_open p)) a [Open f (fst (w_open p))] s) =
     (if changing p dc \<and> fst (w_fchown p) < 0
      then (NATIVE_ERROR_CHOWN_FAILED,
            exit_state NATIVE_ERROR_CHOWN_FAILED (snd (w_fchown p))
              (under_way (fst (w_open p)) a (until_chown p f dc) s))
      else change_mode p dc es (under_way (fst (w_open p)) a (until_chown p f dc) s))"
  unfolding change_owner_and_group_def Let_def
  by (simp add: call_int_cases failed_exit emit_under_way under_way_fields changing_def until_chown_def)

lemma Set_open_failed:
  "fst (w_open p) < 0 \<Longrightarrow>
   SetFilePermissionDataAndAcl p f l dc es s =
     (NATIVE_ERROR_OPEN_FAILED,
      s\<lparr>fd := fst (w_open p), lastErrnoValue := snd (w_open p),
        lastErrnoString := strerror_r s (snd (w_open p)) (lastErrnoString s), errno := snd (w_open p),
        trace := trace s @ [Open f (fst (w_open p)), Failed C_open (snd (w_open p))]\<rparr>)"
  unfolding SetFilePermissionDataAndAcl_def Let_def
  by (simp add: call_int_cases emit_def fails_def store_errno_def)

lemma Set_opened:
  "\<not> fst (w_open p) < 0 \<Longrightarrow>
   SetFilePermissionDataAndAcl p f l dc es s =
     (if fst (w_fstat p) < 0
      then (NATIVE_ERROR_FSTAT_FAILED,
            exit_state NATIVE_ERROR_FSTAT_FAILED (snd (w_fstat p))
              (under_way (fst (w_open p)) (acl s) [Open f (fst (w_open p))] s))
      else change_owner_and_group p dc es (w_fileStat p)
             (under_way (fst (w_open p)) (acl s) [Open f (fst (w_open p))] s))"
proof -
  have u: "(emit (Open f (fst (w_open p))) (s\<lparr>lastErrnoValue := 0\<rparr>))\<lparr>fd := fst (w_open p)\<rparr>
           = under_way (fst (w_open p)) (acl s) [Open f (fst (w_open p))] s"
    by (simp add: emit_def under_way_def)
  assume "\<not> fst (w_open p) < 0"
  then show ?thesis
    unfolding SetFilePermissionDataAndAcl_def Let_def
    by (simp add: call_int_cases u failed_exit under_way_fields)
qed

lemma set_exits:
  assumes "SetFilePermissionDataAndAcl p f l dc es s = (rc, s')" and "\<not> fst (w_open p) < 0"
  shows "set_exit p f dc s rc s'"
proof -
  let ?d = "fst (w_open p)"
  show ?thesis
  proof (cases "fst (w_fstat p) < 0")
    case True
    with assms show ?thesis by (auto simp: Set_opened intro: set_exit.fstat_failed)
  next
    case fstat: False
    show ?thesis
    proof (cases "changing p dc \<and> fst (w_fchown p) < 0")
      case True
      with assms fstat show ?thesis
        by (auto simp: Set_opened change_owner_and_group_under_way intro: set_exit.chown_failed)
    next
      case chown: False
      show ?thesis
      proof (cases "fst (w_fchmod p) < 0")
        case True
        with assms fstat chown
        have "rc = NATIVE_ERROR_CHMOD_FAILED \<and> s' = exit_state NATIVE_ERROR_CHMOD_FAILED
                (snd (w_fchmod p)) (under_way ?d (acl s) (until_chmod p f dc) s)"
          by (simp add: Set_opened change_owner_and_group_under_way change_mode_under_way until_chmod_def)
        then show ?thesis
          using set_exit.chmod_failed[OF fstat chown True] by simp
      next
        case chmod: False
        from assms fstat chown chmod
        have "create_and_build p dc es (under_way ?d (acl s) (until_chmod p f dc) s) = (rc, s')"
          by (simp add: Set_opened change_owner_and_group_under_way change_mode_under_way until_chmod_def)
        from create_and_build_under_way[OF this]
        show ?thesis
        proof (elim disjE exE conjE)
          fix e assume "w_acl_init p = Inl e" "rc = NATIVE_ERROR_INIT_ACL_FAILED"
            "s' = exit_state rc e (under_way ?d None (until_chmod p f dc @ [AclInit (aclSize dc) None]) s)"
          with fstat chown chmod show ?thesis
            using set_exit.init_failed[of p dc e f s] by (simp add: until_init_def pointer_cases)
        next
          fix h e assume "w_acl_init p = Inr h" "entry_error rc"
            "s' = exit_state rc e (under_way ?d (Some h) (until_chmod p f dc @ [AclInit (aclSize dc) (Some h)]) s)"
          with fstat chown chmod show ?thesis
            using set_exit.entry_failed[of p dc h rc f s e] by (simp add: until_init_def pointer_cases)
        next
          fix h assume h: "w_acl_init p = Inr h"
            and "validate_and_assign p (under_way ?d (Some h) (until_chmod p f dc @ [AclInit (aclSize dc) (Some h)]) s) = (rc, s')"
          then have v: "validate_and_assign p (under_way ?d (Some h) (until_init p f dc) s) = (rc, s')"
            by (simp add: until_init_def pointer_cases)
          show ?thesis
          proof (cases "fst (w_acl_valid p) < 0")
            case True
            with v fstat chown chmod h show ?thesis
              using set_exit.validate_failed[of p dc h f s]
              by (simp add: validate_and_assign_under_way)
          next
            case valid: False
            show ?thesis
            proof (cases "fst (w_acl_set_fd p) < 0")
              case True
              with v fstat chown chmod h valid show ?thesis
                using set_exit.assign_failed[of p dc h f s]
                by (simp add: validate_and_assign_under_way until_assign_def pointer_cases)
            next
              case False
              with v fstat chown chmod h valid show ?thesis
                using set_exit.succeeded[of p dc h f s]
                by (simp add: validate_and_assign_under_way until_assign_def pointer_cases)
            qed
          qed
        qed
      qed
    qed
  qed
qed

subsection \<open>OpenFileAndReadPermissionData and ReadFileAclAndClose in closed form\<close>

lemma Open_open_failed:
  "fst (o_open p) < 0 \<Longrightarrow>
   OpenFileAndReadPermissionData p f l dc s =
     (NATIVE_ERROR_OPEN_FAILED, dc,
      s\<lparr>fd := fst (o_open p), lastErrnoValue := snd (o_open p),
        lastErrnoString := strerror_r s (snd (o_open p)) (lastErrnoString s), errno := snd (o_open p),
        trace := trace s @ [Open f (fst (o_open p)), Failed C_open (snd (o_open p))]\<rparr>)"
  unfolding OpenFileAndReadPermissionData_def Let_def
  by (simp add: call_int_cases emit_def fails_def store_errno_def)

lemma returning_pair: "returning out (rc, s) = (rc, out, s)"
  by (simp add: returning_def)

lemma Open_opened:
  assumes "\<not> fst (o_open p) < 0"
  shows "OpenFileAndReadPermissionData p f l dc s =
     (if fst (o_fstat p) < 0
      then (NATIVE_ERROR_FSTAT_FAILED, dc,
            exit_state NATIVE_ERROR_FSTAT_FAILED (snd (o_fstat p))
              (under_way (fst (o_open p)) (acl s) [Open f (fst (o_open p))] s))
      else case o_acl_get_fd p of
        Inl e \<Rightarrow>
          (NATIVE_ERROR_GET_ACL_FAILED, fill_basic_permission_fields (o_fileStat p) dc,
           exit_state NATIVE_ERROR_GET_ACL_FAILED e
             (under_way (fst (o_open p)) None (until_get_acl p f l) s))
      | Inr h \<Rightarrow>
          (case walk_end (o_walk p) of
             Some e \<Rightarrow>
               (NATIVE_ERROR_GET_ACL_ENTRY_FAILED, fill_basic_permission_fields (o_fileStat p) dc,
                exit_state NATIVE_ERROR_GET_ACL_ENTRY_FAILED e
                  (under_way (fst (o_open p)) (Some h) (until_get_acl p f l) s))
           | None \<Rightarrow>
               (NATIVE_ERROR_SUCCESS,
                (fill_basic_permission_fields (o_fileStat p) dc)
                  \<lparr>aclSize := count_entries (walk_entries (o_walk p)) 0\<rparr>,
                under_way (fst (o_open p)) (Some h) (until_get_acl p f l) s)))"
proof -
  have u: "(emit (Open f (fst (o_open p))) (s\<lparr>lastErrnoValue := 0\<rparr>))\<lparr>fd := fst (o_open p)\<rparr>
           = under_way (fst (o_open p)) (acl s) [Open f (fst (o_open p))] s"
    by (simp add: emit_def under_way_def)
  show ?thesis
  proof (cases "fst (o_fstat p) < 0")
    case True
    with assms show ?thesis
      unfolding OpenFileAndReadPermissionData_def Let_def
      by (simp add: call_int_cases u failed_exit under_way_fields returning_pair)
  next
    case False
    with assms show ?thesis
      unfolding OpenFileAndReadPermissionData_def Let_def
      by (cases "o_acl_get_fd p"; cases "walk_end (o_walk p)")
         (simp_all add: call_int_cases call_ptr_cases pointer_cases u failed_exit under_way_fields
            fails_fields fails_acl returning_pair emit_under_way acl_under_way until_get_acl_def)
  qed
qed


lemma errno_left_fields:
  "fd (errno_left ev evs s) = fd s" "acl (errno_left ev evs s) = acl s"
  "lastErrnoValue (errno_left ev evs s) = lastErrnoValue s"
  "lastErrnoString (errno_left ev evs s) = lastErrnoString s"
  "strerror_r (errno_left ev evs s) = strerror_r s" "discarded (errno_left ev evs s) = discarded s"
  "trace (errno_left ev evs s) = trace s"
  by (simp_all add: errno_left_def)

lemma call_discarded_under_way:
  "call_discarded ev (under_way d a evs s) = under_way d a (evs @ [ev]) (errno_left ev evs s)"
  by (simp add: call_discarded_def under_way_def errno_left_def split: option.splits)

lemma entry_walked_fields:
  "fd (entry_walked a evs s) = fd s" "acl (entry_walked a evs s) = acl s"
  "lastErrnoValue (entry_walked a evs s) = lastErrnoValue s"
  "lastErrnoString (entry_walked a evs s) = lastErrnoString s"
  "strerror_r (entry_walked a evs s) = strerror_r s" "discarded (entry_walked a evs s) = discarded s"
  "trace (entry_walked a evs s) = trace s"
  by (simp_all add: entry_walked_def errno_left_fields)

lemma walked_fields:
  "fd (walked as evs s) = fd s" "acl (walked as evs s) = acl s"
  "lastErrnoValue (walked as evs s) = lastErrnoValue s"
  "lastErrnoString (walked as evs s) = lastErrnoString s"
  "strerror_r (walked as evs s) = strerror_r s" "discarded (walked as evs s) = discarded s"
  "trace (walked as evs s) = trace s"
  by (induction as arbitrary: evs s; simp add: entry_walked_fields)+

lemma read_entry_under_way:
  "read_entry a e (under_way d h evs s) =
     (if decoding_fails a
      then Inl (decoding_error a, partly_decoded a e,
                exit_state (decoding_error a) (decoding_errno a)
                  (under_way d h (evs @ decoding_events a) (entry_walked a evs s)))
      else Inr (decoded a e, under_way d h (evs @ decoding_events a) (entry_walked a evs s)))"
proof (cases "tag_query_fails a")
  case True
  then show ?thesis
    unfolding read_entry_def Let_def
    by (simp add: decoding_fails_def decoding_error_def decoding_errno_def decoding_events_def
        partly_decoded_def tag_query_fails_def call_int_cases failed_exit returning_pair
        entry_walked_def)
next
  case tag: False
  show ?thesis
  proof (cases "qualifier_query_fails a")
    case True
    then obtain x where x: "a_get_qualifier a = Inl x" and q: "has_qualifier (a_tag a)"
      by (cases "a_get_qualifier a") (auto simp: qualifier_query_fails_def pointer_cases)
    from tag True x q show ?thesis
      unfolding read_entry_def Let_def
      by (simp add: decoding_fails_def decoding_error_def decoding_errno_def decoding_events_def
          partly_decoded_def tag_query_fails_def call_int_cases call_ptr_cases pointer_cases
          failed_exit returning_pair entry_walked_def)
  next
    case qual: False
    show ?thesis
    proof (cases "has_qualifier (a_tag a)")
      case False
      with tag qual show ?thesis
        unfolding read_entry_def Let_def
        by (simp add: decoding_fails_def decoding_error_def decoding_errno_def decoding_events_def
            permission_query_fails_def qualifier_query_fails_def qualifier_release_def
            qualifier_of_def partly_decoded_def decoded_def tag_query_fails_def call_int_cases
            failed_exit returning_pair entry_walked_def)
    next
      case True
      with qual obtain q where q: "a_get_qualifier a = Inr q"
        by (cases "a_get_qualifier a") (auto simp: qualifier_query_fails_def pointer_cases)
      from tag qual True q show ?thesis
        unfolding read_entry_def Let_def
        by (simp add: decoding_fails_def decoding_error_def decoding_errno_def decoding_events_def
            permission_query_fails_def qualifier_query_fails_def qualifier_release_def
            qualifier_of_def partly_decoded_def decoded_def tag_query_fails_def call_int_cases
            call_ptr_cases pointer_cases call_discarded_under_way failed_exit returning_pair
            entry_walked_def)
    qed
  qed
qed

lemma read_entries_under_way:
  "read_entries as i es (under_way d h evs s) =
     (case first_failure as of
        None \<Rightarrow> Inr (decode_all as i es, under_way d h (evs @ walk_events as) (walked as evs s))
      | Some a \<Rightarrow>
          Inl (decoding_error a, decode_all as i es,
               exit_state (decoding_error a) (decoding_errno a)
                 (under_way d h (evs @ walk_events as) (walked as evs s))))"
  by (induction as arbitrary: i es evs s) (simp_all add: read_entry_under_way split: option.splits)

lemma Read_run:
  "ReadFileAclAndClose w es s =
     (case first_failure (walk_entries w) of
        Some a \<Rightarrow>
          (decoding_error a, decode_all (walk_entries w) 0 es,
           exit_state (decoding_error a) (decoding_errno a)
             (under_way (fd s) (acl s) (walk_events (walk_entries w)) (walked (walk_entries w) [] s)))
      | None \<Rightarrow>
          (case walk_end w of
             Some e \<Rightarrow>
               (NATIVE_ERROR_GET_ACL_ENTRY_FAILED, decode_all (walk_entries w) 0 es,
                exit_state NATIVE_ERROR_GET_ACL_ENTRY_FAILED e
                  (under_way (fd s) (acl s) (walk_events (walk_entries w)) (walked (walk_entries w) [] s)))
           | None \<Rightarrow>
               (NATIVE_ERROR_SUCCESS, decode_all (walk_entries w) 0 es,
                exit_state NATIVE_ERROR_SUCCESS 0
                  (under_way (fd s) (acl s) (walk_events (walk_entries w)) (walked (walk_entries w) [] s)))))"
proof -
  have u: "s\<lparr>lastErrnoValue := 0\<rparr> = under_way (fd s) (acl s) [] s"
    by (simp add: under_way_def)
  show ?thesis
    unfolding ReadFileAclAndClose_def Let_def u read_entries_under_way
    by (simp add: failed_exit plain_exit[where e=0] returning_pair split: option.splits)
qed

lemma walk_events_quiet: "ev \<in> set (walk_events as) \<Longrightarrow> ev = AclFreeQualifier"
  by (induction as) (auto simp: decoding_events_def qualifier_release_def split: if_splits)

lemma first_failure_None: "(first_failure as = None) = (\<forall>a \<in> set as. \<not> decoding_fails a)"
  by (induction as) auto

lemma first_failure_Some: "first_failure as = Some a \<Longrightarrow> a \<in> set as \<and> decoding_fails a"
  by (induction as) (auto split: if_splits)

lemma first_failure_at:
  "k < length as \<Longrightarrow> \<forall>j<k. \<not> decoding_fails (as ! j) \<Longrightarrow> decoding_fails (as ! k) \<Longrightarrow>
   first_failure as = Some (as ! k)"
proof (induction as arbitrary: k)
  case Nil
  then show ?case by simp
next
  case (Cons a as)
  show ?case
  proof (cases k)
    case 0
    with Cons.prems show ?thesis by simp
  next
    case (Suc m)
    with Cons.prems have "\<not> decoding_fails a" by auto
    moreover from Suc Cons.prems have "first_failure as = Some (as ! m)"
      by (intro Cons.IH) auto
    ultimately show ?thesis using Suc by simp
  qed
qed

lemma decode_all_below: "j < i \<Longrightarrow> decode_all as i es j = es j"
  by (induction as arbitrary: i es) auto

lemma decode_all_at:
  "k < length as \<Longrightarrow> \<forall>j<k. \<not> decoding_fails (as ! j) \<Longrightarrow> decoding_fails (as ! k) \<Longrightarrow>
   decode_all as i es n =
     (if i \<le> n \<and> n < i + k then decoded (as ! (n - i)) (es n)
      else if n = i + k then partly_decoded (as ! k) (es n)
      else es n)"
proof (induction as arbitrary: k i es)
  case Nil
  then show ?case by simp
next
  case (Cons a as)
  show ?case
  proof (cases k)
    case 0
    with Cons.prems show ?thesis by auto
  next
    case (Suc m)
    with Cons.prems have a: "\<not> decoding_fails a" by auto
    from Suc Cons.prems
    have "decode_all as (Suc i) (es(i := decoded a (es i))) n =
            (if Suc i \<le> n \<and> n < Suc i + m
             then decoded (as ! (n - Suc i)) ((es(i := decoded a (es i))) n)
             else if n = Suc i + m then partly_decoded (as ! m) ((es(i := decoded a (es i))) n)
             else (es(i := decoded a (es i))) n)"
      by (intro Cons.IH) auto
    with a Suc show ?thesis
      by (auto simp: nth_Cons' Suc_diff_le)
  qed
qed

lemma decode_all_complete:
  "\<forall>a \<in> set as. \<not> decoding_fails a \<Longrightarrow>
   decode_all as i es n =
     (if i \<le> n \<and> n < i + length as then decoded (as ! (n - i)) (es n) else es n)"
proof (induction as arbitrary: i es)
  case Nil
  then show ?case by auto
next
  case (Cons a as)
  then have "decode_all as (Suc i) (es(i := decoded a (es i))) n =
     (if Suc i \<le> n \<and> n < Suc i + length as
      then decoded (as ! (n - Suc i)) ((es(i := decoded a (es i))) n)
      else (es(i := decoded a (es i))) n)"
    by (intro Cons.IH) auto
  with Cons.prems show ?case
    by (auto simp: nth_Cons' Suc_diff_le)
qed

section \<open>The claims\<close>

subsection \<open>Facts about traces and words\<close>

lemma sint_of_count:
  assumes "n < 2 ^ 31"
  shows "sint (word_of_nat n :: 32 word) = int n"
proof -
  have "int n < 2 ^ 31" using assms by simp
  moreover have "- (2 ^ 31) \<le> int n" by simp
  ultimately have "signed_take_bit 31 (int n) = int n"
    by (rule signed_take_bit_int_eq_self[rotated])
  then show ?thesis by (simp add: signed_of_nat)
qed

lemma count_entries_length: "count_entries es n = n + of_nat (length es)"
  by (induction es arbitrary: n) simp_all

lemma new_events_under_way: "new_events s (under_way d a evs s) = evs"
  by (simp add: new_events_def under_way_def)

lemma releases_simps:
  "releases [] = []"
  "releases (ev # tr) = (if is_release ev then ev # releases tr else releases tr)"
  "releases (tr @ tr') = releases tr @ releases tr'"
  by (simp_all add: releases_def)

lemma failed_calls_simps:
  "failed_calls [] = []"
  "failed_calls (ev # tr) = (case failure_of ev of None \<Rightarrow> failed_calls tr | Some x \<Rightarrow> x # failed_calls tr)"
  "failed_calls (tr @ tr') = failed_calls tr @ failed_calls tr'"
  by (auto simp: failed_calls_def map_filter_simps map_filter_def split: option.splits)

lemma owed_releases_simps:
  "owed_releases [] = []"
  "owed_releases (ev # tr) = (case release_owed ev of None \<Rightarrow> owed_releases tr | Some x \<Rightarrow> x # owed_releases tr)"
  "owed_releases (tr @ tr') = owed_releases tr @ owed_releases tr'"
  by (auto simp: owed_releases_def map_filter_simps map_filter_def split: option.splits)

lemma changes_simps:
  "ownership_changes [] = []"
  "ownership_changes (ev # tr) = (if is_ownership_change ev then ev # ownership_changes tr else ownership_changes tr)"
  "ownership_changes (tr @ tr') = ownership_changes tr @ ownership_changes tr'"
  "mode_changes [] = []"
  "mode_changes (ev # tr) = (if is_mode_change ev then ev # mode_changes tr else mode_changes tr)"
  "mode_changes (tr @ tr') = mode_changes tr @ mode_changes tr'"
  "metadata_changes [] = []"
  "metadata_changes (ev # tr) =
     (if is_ownership_change ev \<or> is_mode_change ev then ev # metadata_changes tr else metadata_changes tr)"
  "metadata_changes (tr @ tr') = metadata_changes tr @ metadata_changes tr'"
  by (simp_all add: ownership_changes_def mode_changes_def metadata_changes_def)

lemma release_events_under_way:
  "release_events (under_way d a evs s) =
     (case a of Some h \<Rightarrow> [AclFree h] | None \<Rightarrow> []) @ (if d \<noteq> 0 then [Close d] else [])"
  by (simp add: release_events_def under_way_fields)

lemma new_events_exit:
  "trace s0 = trace s \<Longrightarrow>
   new_events s (exit_state rc e (under_way d a evs s0)) =
     evs @ (case failing_call rc of None \<Rightarrow> [] | Some c \<Rightarrow> [Failed c e])
         @ (case a of Some h \<Rightarrow> [AclFree h] | None \<Rightarrow> []) @ (if d \<noteq> 0 then [Close d] else [])"
  by (simp add: new_events_def exit_state_fields under_way_fields release_events_under_way)

lemma walk_events_projections:
  "failed_calls (walk_events as) = []"
  "releases (walk_events as) = []"
  "owed_releases (walk_events as) = []"
  "Close d \<notin> set (walk_events as)"
proof -
  have q: "\<And>ev. ev \<in> set (walk_events as) \<Longrightarrow> ev = AclFreeQualifier"
    by (rule walk_events_quiet)
  show "failed_calls (walk_events as) = []"
    unfolding failed_calls_def map_filter_def by (auto simp: filter_empty_conv dest!: q)
  show "releases (walk_events as) = []"
    unfolding releases_def by (auto simp: filter_empty_conv dest!: q)
  show "owed_releases (walk_events as) = []"
    unfolding owed_releases_def map_filter_def by (auto simp: filter_empty_conv dest!: q)
  show "Close d \<notin> set (walk_events as)"
    by (auto dest: q)
qed

lemma until_projections:
  "failed_calls (until_chown p f dc) = []"
  "failed_calls (until_chmod p f dc) = []"
  "failed_calls (until_init p f dc) = []"
  "failed_calls (until_assign p f dc) = []"
  "releases (until_chown p f dc) = []"
  "releases (until_chmod p f dc) = []"
  "releases (until_init p f dc) = []"
  "releases (until_assign p f dc) = []"
  by (simp_all add: until_chown_def until_chmod_def until_init_def until_assign_def
      failed_calls_simps releases_simps)


lemma error_captured_exit:
  "failed_calls evs = [] \<Longrightarrow> trace s0 = trace s \<Longrightarrow> strerror_r s0 = strerror_r s \<Longrightarrow>
   lastErrnoString s0 = lastErrnoString s \<Longrightarrow>
   error_captured s rc (exit_state rc e (under_way d a evs s0))"
  by (simp add: error_captured_def new_events_exit exit_state_fields under_way_fields failed_calls_simps
      split: option.splits)

lemma error_captured_under_way:
  "failed_calls evs = [] \<Longrightarrow> error_captured s NATIVE_ERROR_SUCCESS (under_way d a evs s)"
  by (simp add: error_captured_def new_events_under_way under_way_fields)

lemma error_captured_open_failed:
  "error_captured s NATIVE_ERROR_OPEN_FAILED
     (s\<lparr>fd := d, lastErrnoValue := e, lastErrnoString := strerror_r s e (lastErrnoString s), errno := e,
        trace := trace s @ [Open f d, Failed C_open e]\<rparr>)"
  by (simp add: error_captured_def new_events_def failed_calls_simps)

lemma set_channel:
  assumes "SetFilePermissionDataAndAcl p f l dc es s = (rc, s')"
  shows "error_captured s rc s'"
proof (cases "fst (w_open p) < 0")
  case True
  with assms show ?thesis by (auto simp: Set_open_failed error_captured_open_failed)
next
  case False
  from set_exits[OF assms False] show ?thesis
    by cases (simp_all add: error_captured_exit until_projections failed_calls_simps)
qed

lemma read_channel:
  assumes "ReadFileAclAndClose w es s = (rc, es', s')"
  shows "error_captured s rc s'"
  using assms unfolding Read_run
  by (auto simp: error_captured_exit walk_events_projections walked_fields split: option.splits)

lemma open_channel:
  assumes "OpenFileAndReadPermissionData p f l dc s = (rc, dc', s')"
  shows "error_captured s rc s'"
proof (cases "fst (o_open p) < 0")
  case True
  with assms show ?thesis by (auto simp: Open_open_failed error_captured_open_failed)
next
  case False
  from assms show ?thesis
    unfolding Open_opened[OF False]
    by (auto simp: error_captured_exit error_captured_under_way until_get_acl_def failed_calls_simps
        split: if_splits sum.splits option.splits)
qed


lemmas run_defs = SetFilePermissionDataAndAcl_def change_owner_and_group_def change_mode_def
  create_and_build_def validate_and_assign_def build_entry_def platform_tag_def
  OpenFileAndReadPermissionData_def ReadFileAclAndClose_def read_entry_def
  cleanup_with_error_code_def store_errno_def call_discarded_def call_int_def call_ptr_def
  pointer_def emit_def fails_def
  newOwner_def newGroup_def chmodBits_def aclType_def returning_def
  fill_basic_permission_fields_def set_tag_type_def has_qualifier_def entry_permissions_def
  Let_def

lemmas example_defs = initially_def after_an_error_def plain_entry_def minimal_walk_def open_ok_def
  blank_def build_ok_def set_ok_def entry_of_def request_def

lemmas example2_defs = denied_fstat_def broken_walk_def rejected_acl_def loaded_def

lemmas constant_defs = ACL_ENTRY_TAG_TYPE_USER_OBJ_def ACL_ENTRY_TAG_TYPE_USER_def
  ACL_ENTRY_TAG_TYPE_GROUP_OBJ_def ACL_ENTRY_TAG_TYPE_GROUP_def ACL_ENTRY_TAG_TYPE_MASK_def
  ACL_ENTRY_TAG_TYPE_OTHER_def permission_defs

lemma one_iteration: "nat (sint (1 :: 32 word)) = Suc 0"
  by simp


lemma new_events_exit_events:
  "trace s0 = trace s \<Longrightarrow>
   new_events s (exit_state rc e (under_way d a evs s0)) = evs @ exit_events rc e d a"
  by (simp add: new_events_exit exit_events_def)

lemma exit_events_projections:
  "releases (exit_events rc e d a) =
     (case a of Some h \<Rightarrow> [AclFree h] | None \<Rightarrow> []) @ (if d \<noteq> 0 then [Close d] else [])"
  "owed_releases (exit_events rc e d a) = []"
  "ownership_changes (exit_events rc e d a) = []"
  "mode_changes (exit_events rc e d a) = []"
  "metadata_changes (exit_events rc e d a) = []"
  "Close 0 \<notin> set (exit_events rc e d a)"
  by (simp_all add: exit_events_def releases_simps owed_releases_simps changes_simps
      split: option.splits)

lemmas until_defs = until_chown_def until_chmod_def until_init_def until_assign_def

lemmas projection_simps = failed_calls_simps releases_simps owed_releases_simps changes_simps

subsection \<open>What a successful OpenFileAndReadPermissionData returns\<close>

lemma permission_flag:
  "(w AND FILE_PERMISSION_EXECUTE \<noteq> 0) = bit w 0"
  "(w AND FILE_PERMISSION_WRITE \<noteq> 0) = bit w 1"
  "(w AND FILE_PERMISSION_READ \<noteq> 0) = bit w 2"
  "(w AND FILE_PERMISSION_SETID \<noteq> 0) = bit w 3"
  "(w AND FILE_PERMISSION_STICKY \<noteq> 0) = bit w 4"
  unfolding permission_defs by (rule test_single_bit)+

lemma mode_flag:
  "(m AND S_IXOTH \<noteq> 0) = bit m 0" "(m AND S_IWOTH \<noteq> 0) = bit m 1" "(m AND S_IROTH \<noteq> 0) = bit m 2"
  "(m AND S_IXGRP \<noteq> 0) = bit m 3" "(m AND S_IWGRP \<noteq> 0) = bit m 4" "(m AND S_IRGRP \<noteq> 0) = bit m 5"
  "(m AND S_IXUSR \<noteq> 0) = bit m 6" "(m AND S_IWUSR \<noteq> 0) = bit m 7" "(m AND S_IRUSR \<noteq> 0) = bit m 8"
  "(m AND S_ISVTX \<noteq> 0) = bit m 9" "(m AND S_ISGID \<noteq> 0) = bit m 10" "(m AND S_ISUID \<noteq> 0) = bit m 11"
  unfolding mode_bit_defs by (rule test_single_bit)+

lemma owner_flags:
  "(ownerPermissions_of_mode m AND FILE_PERMISSION_READ \<noteq> 0) = (m AND S_IRUSR \<noteq> 0)"
  "(ownerPermissions_of_mode m AND FILE_PERMISSION_WRITE \<noteq> 0) = (m AND S_IWUSR \<noteq> 0)"
  "(ownerPermissions_of_mode m AND FILE_PERMISSION_EXECUTE \<noteq> 0) = (m AND S_IXUSR \<noteq> 0)"
  "(ownerPermissions_of_mode m AND FILE_PERMISSION_SETID \<noteq> 0) = (m AND S_ISUID \<noteq> 0)"
  "(ownerPermissions_of_mode m AND FILE_PERMISSION_STICKY \<noteq> 0) = (m AND S_ISVTX \<noteq> 0)"
  by (simp_all add: permission_flag mode_flag bit_ownerPermissions_of_mode)

lemma group_flags:
  "(groupPermissions_of_mode m AND FILE_PERMISSION_READ \<noteq> 0) = (m AND S_IRGRP \<noteq> 0)"
  "(groupPermissions_of_mode m AND FILE_PERMISSION_WRITE \<noteq> 0) = (m AND S_IWGRP \<noteq> 0)"
  "(groupPermissions_of_mode m AND FILE_PERMISSION_EXECUTE \<noteq> 0) = (m AND S_IXGRP \<noteq> 0)"
  "(groupPermissions_of_mode m AND FILE_PERMISSION_SETID \<noteq> 0) = (m AND S_ISGID \<noteq> 0)"
  by (simp_all add: permission_flag mode_flag bit_groupPermissions_of_mode)

lemma other_flags:
  "(otherPermissions_of_mode m AND FILE_PERMISSION_READ \<noteq> 0) = (m AND S_IROTH \<noteq> 0)"
  "(otherPermissions_of_mode m AND FILE_PERMISSION_WRITE \<noteq> 0) = (m AND S_IWOTH \<noteq> 0)"
  "(otherPermissions_of_mode m AND FILE_PERMISSION_EXECUTE \<noteq> 0) = (m AND S_IXOTH \<noteq> 0)"
  by (simp_all add: permission_flag mode_flag bit_otherPermissions_of_mode)

lemma decoded_within_class:
  "ownerPermissions_of_mode m AND 31 = ownerPermissions_of_mode m"
  "groupPermissions_of_mode m AND 15 = groupPermissions_of_mode m"
  "otherPermissions_of_mode m AND 7 = otherPermissions_of_mode m"
proof -
  show "ownerPermissions_of_mode m AND 31 = ownerPermissions_of_mode m"
    by (rule bit_word_eqI) (auto simp: bit_and_iff bit_31 bit_ownerPermissions_of_mode)
  show "groupPermissions_of_mode m AND 15 = groupPermissions_of_mode m"
    by (rule bit_word_eqI) (auto simp: bit_and_iff bit_15 bit_groupPermissions_of_mode)
  show "otherPermissions_of_mode m AND 7 = otherPermissions_of_mode m"
    by (rule bit_word_eqI) (auto simp: bit_and_iff bit_7 bit_otherPermissions_of_mode)
qed

text \<open>
  After a successful OpenFileAndReadPermissionData the container holds the owner that
  \<open>fstat\<close> reported for the opened file; each permission set has a flag exactly when the
  mode has the bit of that flag for that class, and no flag outside those of its class
  (31, 15 and 7 are the flags of the owner, of the group and of the others); the size is
  the number of entries that the walk of the loaded ACL yields before it ends (an ACL
  has fewer than \<open>2^31\<close> entries); the descriptor that \<open>open\<close> returned and the handle
  that \<open>acl_get_fd\<close> returned stay in their variables, and the operation released
  nothing. The group field holds the member that line 78 names.
\<close>

lemma open_success:
  assumes "OpenFileAndReadPermissionData p f l dc s = (NATIVE_ERROR_SUCCESS, dc', s')"
    and "length (walk_entries (o_walk p)) < 2 ^ 31"
  shows "ownerId dc' = st_uid (o_fileStat p) \<and> groupId dc' = st_git (o_fileStat p)
     \<and> (ownerPermissions dc' AND FILE_PERMISSION_READ \<noteq> 0) = (st_mode (o_fileStat p) AND S_IRUSR \<noteq> 0)
     \<and> (ownerPermissions dc' AND FILE_PERMISSION_WRITE \<noteq> 0) = (st_mode (o_fileStat p) AND S_IWUSR \<noteq> 0)
     \<and> (ownerPermissions dc' AND FILE_PERMISSION_EXECUTE \<noteq> 0) = (st_mode (o_fileStat p) AND S_IXUSR \<noteq> 0)
     \<and> (ownerPermissions dc' AND FILE_PERMISSION_SETID \<noteq> 0) = (st_mode (o_fileStat p) AND S_ISUID \<noteq> 0)
     \<and> (ownerPermissions dc' AND FILE_PERMISSION_STICKY \<noteq> 0) = (st_mode (o_fileStat p) AND S_ISVTX \<noteq> 0)
     \<and> ownerPermissions dc' AND 31 = ownerPermissions dc'
     \<and> (groupPermissions dc' AND FILE_PERMISSION_READ \<noteq> 0) = (st_mode (o_fileStat p) AND S_IRGRP \<noteq> 0)
     \<and> (groupPermissions dc' AND FILE_PERMISSION_WRITE \<noteq> 0) = (st_mode (o_fileStat p) AND S_IWGRP \<noteq> 0)
     \<and> (groupPermissions dc' AND FILE_PERMISSION_EXECUTE \<noteq> 0) = (st_mode (o_fileStat p) AND S_IXGRP \<noteq> 0)
     \<and> (groupPermissions dc' AND FILE_PERMISSION_SETID \<noteq> 0) = (st_mode (o_fileStat p) AND S_ISGID \<noteq> 0)
     \<and> groupPermissions dc' AND 15 = groupPermissions dc'
     \<and> (otherPermissions dc' AND FILE_PERMISSION_READ \<noteq> 0) = (st_mode (o_fileStat p) AND S_IROTH \<noteq> 0)
     \<and> (otherPermissions dc' AND FILE_PERMISSION_WRITE \<noteq> 0) = (st_mode (o_fileStat p) AND S_IWOTH \<noteq> 0)
     \<and> (otherPermissions dc' AND FILE_PERMISSION_EXECUTE \<noteq> 0) = (st_mode (o_fileStat p) AND S_IXOTH \<noteq> 0)
     \<and> otherPermissions dc' AND 7 = otherPermissions dc'
     \<and> sint (aclSize dc') = int (length (walk_entries (o_walk p)))
     \<and> walk_end (o_walk p) = None
     \<and> 0 \<le> fst (o_open p) \<and> fd s' = fst (o_open p)
     \<and> acl s' = pointer (o_acl_get_fd p) \<and> acl s' \<noteq> None
     \<and> releases (new_events s s') = []"
proof -
  have n: "sint (word_of_nat (length (walk_entries (o_walk p))) :: 32 word)
           = int (length (walk_entries (o_walk p)))"
    using assms(2) by (rule sint_of_count)
  from assms(1) have o: "\<not> fst (o_open p) < 0"
    by (auto simp: Open_open_failed)
  from assms(1) o obtain h where
    r: "walk_end (o_walk p) = None" "o_acl_get_fd p = Inr h"
       "dc' = (fill_basic_permission_fields (o_fileStat p) dc)
                \<lparr>aclSize := count_entries (walk_entries (o_walk p)) 0\<rparr>"
       "s' = under_way (fst (o_open p)) (Some h) (until_get_acl p f l) s"
    unfolding Open_opened[OF o]
    by (auto split: if_splits sum.splits option.splits)
  from o r n show ?thesis
    by (simp add: fill_basic_permission_fields_def owner_flags group_flags other_flags
        decoded_within_class count_entries_length under_way_fields new_events_under_way
        until_get_acl_def releases_simps pointer_cases)
qed

text \<open>
  For the file of mode 06754: owner, permission sets and size as the lemma says,
  descriptor 3 and handle 7 held.
\<close>

lemma open_success_run:
  "OpenFileAndReadPermissionData open_setid ''/srv/data'' 0 blank initially =
     (NATIVE_ERROR_SUCCESS,
      \<lparr>ownerId = 1000, ownerPermissions = 15, groupId = 0, groupPermissions = 13,
       otherPermissions = 4, aclSize = 3\<rparr>,
      initially\<lparr>fd := 3, acl := Some 7,
        trace := [Open ''/srv/data'' 3, AclGetFd 3 ACL_TYPE_ACCESS (Some 7)]\<rparr>)
   \<and> length (walk_entries (o_walk open_setid)) < 2 ^ 31
   \<and> ((15::32 word) AND FILE_PERMISSION_SETID \<noteq> 0) = (st_mode (o_fileStat open_setid) AND S_ISUID \<noteq> 0)
   \<and> ((4::32 word) AND FILE_PERMISSION_WRITE \<noteq> 0) = (st_mode (o_fileStat open_setid) AND S_IWOTH \<noteq> 0)
   \<and> sint (3::32 word) = int (length (walk_entries (o_walk open_setid)))"
proof -
  have run: "OpenFileAndReadPermissionData open_setid ''/srv/data'' 0 blank initially =
     (NATIVE_ERROR_SUCCESS,
      \<lparr>ownerId = 1000, ownerPermissions = 15, groupId = 0, groupPermissions = 13,
       otherPermissions = 4, aclSize = 3\<rparr>,
      initially\<lparr>fd := 3, acl := Some 7,
        trace := [Open ''/srv/data'' 3, AclGetFd 3 ACL_TYPE_ACCESS (Some 7)]\<rparr>)"
    by (simp add: run_defs example_defs open_setid_def ownerPermissions_of_mode_def
        groupPermissions_of_mode_def otherPermissions_of_mode_def mode_bit_defs permission_defs)
  have n: "length (walk_entries (o_walk open_setid)) < 2 ^ 31"
    by (simp add: open_setid_def open_ok_def minimal_walk_def)
  from open_success [OF run n] n run show ?thesis
    by simp
qed

text \<open>
  C4. The code does not do what the claim says of the group. Line 78 stores
  \<open>fileStat.st_git\<close>, and the group that \<open>fstat\<close> reports, \<open>st_gid\<close>, is read nowhere in the
  operation: whatever the group of the file is, the operation returns the same, and for
  the file of group 100 the group field of the container holds something else, the 0 of
  that other member. (SetFilePermissionDataAndAcl reads \<open>st_gid\<close> on line 245.)
\<close>

theorem group_of_file_is_not_read:
  "OpenFileAndReadPermissionData (p\<lparr>o_fileStat := (o_fileStat p)\<lparr>st_gid := g\<rparr>\<rparr>) f l dc s
     = OpenFileAndReadPermissionData p f l dc s
   \<and> fst (OpenFileAndReadPermissionData open_ok ''/srv/data'' 0 blank initially) = NATIVE_ERROR_SUCCESS
   \<and> st_gid (o_fileStat open_ok) = 100
   \<and> fst (snd (OpenFileAndReadPermissionData open_ok ''/srv/data'' 0 blank initially)) =
       \<lparr>ownerId = 1000, ownerPermissions = 6, groupId = 0, groupPermissions = 4,
        otherPermissions = 4, aclSize = 3\<rparr>"
proof -
  have "OpenFileAndReadPermissionData (p\<lparr>o_fileStat := (o_fileStat p)\<lparr>st_gid := g\<rparr>\<rparr>) f l dc s
     = OpenFileAndReadPermissionData p f l dc s"
    by (simp add: OpenFileAndReadPermissionData_def fill_basic_permission_fields_def Let_def)
  moreover have "OpenFileAndReadPermissionData open_ok ''/srv/data'' 0 blank initially =
     (NATIVE_ERROR_SUCCESS,
      \<lparr>ownerId = 1000, ownerPermissions = 6, groupId = 0, groupPermissions = 4,
       otherPermissions = 4, aclSize = 3\<rparr>,
      initially\<lparr>fd := 3, acl := Some 7,
        trace := [Open ''/srv/data'' 3, AclGetFd 3 ACL_TYPE_ACCESS (Some 7)]\<rparr>)"
    by (simp add: run_defs example_defs ownerPermissions_of_mode_def groupPermissions_of_mode_def
        otherPermissions_of_mode_def mode_bit_defs permission_defs)
  moreover have "st_gid (o_fileStat open_ok) = 100"
    by (simp add: open_ok_def)
  ultimately show ?thesis by simp
qed

subsection \<open>The Error Channel\<close>

lemma failed_calls_none: "(failed_calls tr = []) = (\<forall>ev \<in> set tr. failure_of ev = None)"
  by (induction tr) (auto simp: failed_calls_simps split: option.splits)

lemma cleanup_events_quiet:
  "dropWhile (\<lambda>ev. failure_of ev = None)
     ((case a of Some h \<Rightarrow> [AclFree h] | None \<Rightarrow> []) @ (if d \<noteq> 0 then [Close d] else [])) = []"
  by (auto split: option.splits)

lemma failure_then_cleanup_quiet:
  assumes "failed_calls tr = []"
  shows "failure_then_cleanup tr"
proof -
  from assms have "\<forall>ev \<in> set tr. failure_of ev = None"
    by (simp add: failed_calls_none)
  then show ?thesis
    unfolding failure_then_cleanup_def assms by simp
qed

lemma failure_then_cleanup_exit:
  assumes "failed_calls evs = []" and "releases evs = []"
  shows "failure_then_cleanup (evs @ exit_events rc e d a)"
proof -
  from assms(1) have q: "\<forall>ev \<in> set evs. failure_of ev = None"
    by (simp add: failed_calls_none)
  show ?thesis
  proof (cases "failing_call rc")
    case None
    with assms q show ?thesis
      by (simp add: failure_then_cleanup_def exit_events_def dropWhile_append2 failed_calls_simps
          split: option.splits)
  next
    case (Some c)
    with assms q show ?thesis
      by (simp add: failure_then_cleanup_def exit_events_def dropWhile_append2 failed_calls_simps
          releases_simps split: option.splits)
  qed
qed

lemma exit_in_order:
  "failed_calls evs = [] \<Longrightarrow> releases evs = [] \<Longrightarrow> trace s0 = trace s \<Longrightarrow>
   failure_then_cleanup (new_events s (exit_state rc e (under_way d a evs s0)))"
  by (simp only: new_events_exit_events failure_then_cleanup_exit)

lemma failure_then_cleanup_open_failed: "failure_then_cleanup [Open f d, Failed C_open e]"
  by (simp add: failure_then_cleanup_def failed_calls_simps releases_simps)

lemma set_order:
  assumes "SetFilePermissionDataAndAcl p f l dc es s = (rc, s')"
  shows "failure_then_cleanup (new_events s s')"
proof (cases "fst (w_open p) < 0")
  case True
  with assms show ?thesis
    by (auto simp: Set_open_failed new_events_def failure_then_cleanup_open_failed)
next
  case False
  from set_exits[OF assms False] show ?thesis
    by cases (simp_all add: exit_in_order until_projections failed_calls_simps releases_simps)
qed

lemma read_order:
  assumes "ReadFileAclAndClose w es s = (rc, es', s')"
  shows "failure_then_cleanup (new_events s s')"
  using assms unfolding Read_run
  by (auto simp: exit_in_order walk_events_projections walked_fields split: option.splits)

lemma open_order:
  assumes "OpenFileAndReadPermissionData p f l dc s = (rc, dc', s')"
  shows "failure_then_cleanup (new_events s s')"
proof (cases "fst (o_open p) < 0")
  case True
  with assms show ?thesis
    by (auto simp: Open_open_failed new_events_def failure_then_cleanup_open_failed)
next
  case False
  from assms show ?thesis
    unfolding Open_opened[OF False]
    by (auto simp: exit_in_order new_events_under_way failure_then_cleanup_quiet
        until_get_acl_def failed_calls_simps releases_simps
        split: if_splits sum.splits option.splits)
qed

lemma captured_is_reported: "error_captured s rc s' \<Longrightarrow> error_reported cp buf n s s'"
  by (cases "failing_call rc") (auto simp: error_captured_def error_reported_def GetLastErrnoValue_def)

text \<open>
  C6, as amended. Whatever the platform answers, the calls of the cleanup included:
  an error kind that names a call is returned after exactly one of the calls that the
  operation tests has failed, the call it names; that failure is the last thing before
  the cleanup, and after the cleanup the error value is the \<open>errno\<close> of that call, not
  what the calls of the cleanup made of \<open>errno\<close>, and the buffer holds what \<open>strerror_r\<close>
  made of it for that \<open>errno\<close>; GetLastErrnoValue reports that value and that text.
  \<open>NATIVE_ERROR_INVALID_TAG_TYPE\<close> and \<open>NATIVE_ERROR_SUCCESS\<close> name no call and are returned
  after no tested call failed; nothing is stored, the error value is the 0 of the reset,
  the buffer is as it was, and GetLastErrnoValue reports 0 and puts a NUL first in the
  caller's buffer. Error kinds and calls correspond one to one.
\<close>

theorem error_channel:
  "(case OpenFileAndReadPermissionData p f l dc s1 of (rc, dc', s') \<Rightarrow>
      error_captured s1 rc s' \<and> failure_then_cleanup (new_events s1 s')
      \<and> error_reported cp buf n s1 s')
   \<and> (case ReadFileAclAndClose w es s2 of (rc, es', s') \<Rightarrow>
      error_captured s2 rc s' \<and> failure_then_cleanup (new_events s2 s')
      \<and> error_reported cp buf n s2 s')
   \<and> (case SetFilePermissionDataAndAcl q g m dc2 es2 s3 of (rc, s') \<Rightarrow>
      error_captured s3 rc s' \<and> failure_then_cleanup (new_events s3 s')
      \<and> error_reported cp buf n s3 s')
   \<and> (failing_call rc = Some c) = (rc = error_kind c)
   \<and> (failing_call rc = None) = (rc = NATIVE_ERROR_SUCCESS \<or> rc = NATIVE_ERROR_INVALID_TAG_TYPE)"
proof -
  have "(failing_call rc = None) = (rc = NATIVE_ERROR_SUCCESS \<or> rc = NATIVE_ERROR_INVALID_TAG_TYPE)"
    by (cases rc) simp_all
  moreover have "case OpenFileAndReadPermissionData p f l dc s1 of (rc, dc', s') \<Rightarrow>
      error_captured s1 rc s' \<and> failure_then_cleanup (new_events s1 s')
      \<and> error_reported cp buf n s1 s'"
    by (cases "OpenFileAndReadPermissionData p f l dc s1")
       (simp add: open_channel open_order captured_is_reported[OF open_channel])
  moreover have "case ReadFileAclAndClose w es s2 of (rc, es', s') \<Rightarrow>
      error_captured s2 rc s' \<and> failure_then_cleanup (new_events s2 s')
      \<and> error_reported cp buf n s2 s'"
    by (cases "ReadFileAclAndClose w es s2")
       (simp add: read_channel read_order captured_is_reported[OF read_channel])
  moreover have "case SetFilePermissionDataAndAcl q g m dc2 es2 s3 of (rc, s') \<Rightarrow>
      error_captured s3 rc s' \<and> failure_then_cleanup (new_events s3 s')
      \<and> error_reported cp buf n s3 s'"
    by (cases "SetFilePermissionDataAndAcl q g m dc2 es2 s3")
       (simp add: set_channel set_order captured_is_reported[OF set_channel])
  ultimately show ?thesis
    by (simp add: failing_call_Some)
qed

text \<open>
  The order of capture and cleanup shows where \<open>close\<close> fails (with 5 here): after a
  failure with 13, capturing and then cleaning up stores 13, and cleaning up first
  would store the 5 of \<open>close\<close>.
\<close>

lemma capture_precedes_cleanup:
  "lastErrnoValue (snd (cleanup_with_error_code NATIVE_ERROR_FSTAT_FAILED
       (store_errno (fails C_fstat 13 (close_fails\<lparr>fd := 3\<rparr>))))) = 13
   \<and> lastErrnoValue (store_errno (snd (cleanup_with_error_code NATIVE_ERROR_FSTAT_FAILED
       (fails C_fstat 13 (close_fails\<lparr>fd := 3\<rparr>))))) = 5"
  by (simp add: cleanup_with_error_code_def store_errno_def fails_def call_discarded_def
      close_fails_def initially_def Let_def)

text \<open>
  On that platform, with \<open>fstat\<close> denied (13): the cleanup leaves 5 in \<open>errno\<close>, and the
  Error Channel holds the 13 of \<open>fstat\<close>.
\<close>

theorem error_channel_witness:
  "OpenFileAndReadPermissionData denied_fstat ''/srv/data'' 0 blank close_fails =
     (NATIVE_ERROR_FSTAT_FAILED, blank,
      close_fails\<lparr>lastErrnoValue := 13, lastErrnoString := ''Permission denied'', errno := 5,
                   trace := [Open ''/srv/data'' 3, Failed C_fstat 13, Close 3]\<rparr>)
   \<and> failed_calls [Open ''/srv/data'' 3, Failed C_fstat 13, Close 3] = [(C_fstat, 13)]
   \<and> failure_then_cleanup [Open ''/srv/data'' 3, Failed C_fstat 13, Close 3]
   \<and> GetLastErrnoValue (\<lambda>buf n src. src) ''????'' 4
        (close_fails\<lparr>lastErrnoValue := 13, lastErrnoString := ''Permission denied'', errno := 5,
                   trace := [Open ''/srv/data'' 3, Failed C_fstat 13, Close 3]\<rparr>)
      = (13, ''Permission denied'')
   \<and> failing_call NATIVE_ERROR_FSTAT_FAILED = Some C_fstat"
proof -
  have run: "OpenFileAndReadPermissionData denied_fstat ''/srv/data'' 0 blank close_fails =
     (NATIVE_ERROR_FSTAT_FAILED, blank,
      close_fails\<lparr>lastErrnoValue := 13, lastErrnoString := ''Permission denied'', errno := 5,
                   trace := [Open ''/srv/data'' 3, Failed C_fstat 13, Close 3]\<rparr>)"
    by (simp add: run_defs example_defs example2_defs close_fails_def)
  from error_channel [where p = denied_fstat and f = "''/srv/data''" and l = 0 and dc = blank
      and ?s1.0 = close_fails and rc = NATIVE_ERROR_FSTAT_FAILED and c = C_fstat
      and cp = "\<lambda>buf n src. src" and buf = "''????''" and n = 4]
  show ?thesis
    unfolding run
    by (simp add: error_captured_def error_reported_def new_events_def close_fails_def
        initially_def failed_calls_simps)
qed

text \<open>
  C6, as stated, fails: an entry with tag type 7 is rejected with
  \<open>NATIVE_ERROR_INVALID_TAG_TYPE\<close>; no call has failed, the \<open>errno\<close> of the platform
  (13 here) is not stored, the error value is the 0 of the reset, the buffer keeps the
  text of an earlier error, and GetLastErrnoValue reports 0 and the empty string.
\<close>

theorem invalid_tag_type_without_capture:
  "fst (SetFilePermissionDataAndAcl set_ok ''/srv/data'' 0 request (\<lambda>i. entry_of 7) after_an_error)
     = NATIVE_ERROR_INVALID_TAG_TYPE
   \<and> failed_calls (new_events after_an_error
        (snd (SetFilePermissionDataAndAcl set_ok ''/srv/data'' 0 request (\<lambda>i. entry_of 7)
                after_an_error))) = []
   \<and> errno (snd (SetFilePermissionDataAndAcl set_ok ''/srv/data'' 0 request (\<lambda>i. entry_of 7)
                   after_an_error)) = 13
   \<and> lastErrnoValue (snd (SetFilePermissionDataAndAcl set_ok ''/srv/data'' 0 request
                            (\<lambda>i. entry_of 7) after_an_error)) = 0
   \<and> lastErrnoString (snd (SetFilePermissionDataAndAcl set_ok ''/srv/data'' 0 request
                            (\<lambda>i. entry_of 7) after_an_error)) = lastErrnoString after_an_error
   \<and> GetLastErrnoValue (\<lambda>buf n src. src) ''????'' 4
        (snd (SetFilePermissionDataAndAcl set_ok ''/srv/data'' 0 request (\<lambda>i. entry_of 7)
                after_an_error))
      = (0, [CHR 0x00, CHR ''?'', CHR ''?'', CHR ''?''])"
  by (simp add: run_defs example_defs constant_defs one_iteration new_events_def projection_simps
      GetLastErrnoValue_def)

text \<open>
  The text is the platform's: where \<open>strerror_r\<close> leaves the buffer alone, as the GNU
  function does for an error number it knows, the Error Channel holds the new error
  value beside the text of the error before it.
\<close>

lemma description_is_what_strerror_r_leaves:
  "OpenFileAndReadPermissionData missing_file ''/srv/none'' 0 blank
     (after_an_error\<lparr>strerror_r := (\<lambda>e old. old)\<rparr>) =
     (NATIVE_ERROR_OPEN_FAILED, blank,
      after_an_error\<lparr>strerror_r := (\<lambda>e old. old), fd := - 1, lastErrnoValue := 2,
        lastErrnoString := ''Permission denied'', errno := 2,
        trace := [Open ''/srv/none'' (- 1), Failed C_open 2]\<rparr>)"
  by (simp add: run_defs example_defs missing_file_def)

subsection \<open>GetLastErrnoValue after a success\<close>

lemma success_resets:
  "error_captured s NATIVE_ERROR_SUCCESS s' \<Longrightarrow> lastErrnoValue s' = 0"
  by (simp add: error_captured_def)

lemma c_string_emptied: "buf \<noteq> [] \<Longrightarrow> c_string (buf[0 := CHR 0x00]) = []"
  by (cases buf) (simp_all add: c_string_def)

text \<open>
  C8. After any of the three operations returned \<open>NATIVE_ERROR_SUCCESS\<close>, from whatever
  state it was called in (the error value of an earlier failure included, since every
  operation resets it first), GetLastErrnoValue returns 0 and leaves the empty string
  in the caller's buffer (a buffer of at least one byte).
\<close>

theorem no_error_after_success:
  assumes "buf \<noteq> []"
  shows "(OpenFileAndReadPermissionData p f l dc s1 = (NATIVE_ERROR_SUCCESS, dc', s1') \<longrightarrow>
            fst (GetLastErrnoValue cp buf n s1') = 0 \<and> c_string (snd (GetLastErrnoValue cp buf n s1')) = [])
       \<and> (ReadFileAclAndClose w es s2 = (NATIVE_ERROR_SUCCESS, es', s2') \<longrightarrow>
            fst (GetLastErrnoValue cp buf n s2') = 0 \<and> c_string (snd (GetLastErrnoValue cp buf n s2')) = [])
       \<and> (SetFilePermissionDataAndAcl q g m dc2 es2 s3 = (NATIVE_ERROR_SUCCESS, s3') \<longrightarrow>
            fst (GetLastErrnoValue cp buf n s3') = 0 \<and> c_string (snd (GetLastErrnoValue cp buf n s3')) = [])"
  using assms
  by (auto dest!: open_channel read_channel set_channel success_resets
      simp: GetLastErrnoValue_def c_string_emptied)

theorem no_error_after_success_witness:
  "''????'' \<noteq> []
   \<and> OpenFileAndReadPermissionData open_ok ''/srv/data'' 0 blank after_an_error =
       (NATIVE_ERROR_SUCCESS,
        \<lparr>ownerId = 1000, ownerPermissions = 6, groupId = 0, groupPermissions = 4,
         otherPermissions = 4, aclSize = 3\<rparr>,
        after_an_error\<lparr>fd := 3, acl := Some 7, lastErrnoValue := 0,
          trace := [Open ''/srv/data'' 3, AclGetFd 3 ACL_TYPE_ACCESS (Some 7)]\<rparr>)
   \<and> lastErrnoValue after_an_error = 13
   \<and> fst (GetLastErrnoValue (\<lambda>buf n src. src) ''????'' 4
        (after_an_error\<lparr>fd := 3, acl := Some 7, lastErrnoValue := 0,
          trace := [Open ''/srv/data'' 3, AclGetFd 3 ACL_TYPE_ACCESS (Some 7)]\<rparr>)) = 0
   \<and> c_string (snd (GetLastErrnoValue (\<lambda>buf n src. src) ''????'' 4
        (after_an_error\<lparr>fd := 3, acl := Some 7, lastErrnoValue := 0,
          trace := [Open ''/srv/data'' 3, AclGetFd 3 ACL_TYPE_ACCESS (Some 7)]\<rparr>))) = []"
proof -
  have run: "OpenFileAndReadPermissionData open_ok ''/srv/data'' 0 blank after_an_error =
       (NATIVE_ERROR_SUCCESS,
        \<lparr>ownerId = 1000, ownerPermissions = 6, groupId = 0, groupPermissions = 4,
         otherPermissions = 4, aclSize = 3\<rparr>,
        after_an_error\<lparr>fd := 3, acl := Some 7, lastErrnoValue := 0,
          trace := [Open ''/srv/data'' 3, AclGetFd 3 ACL_TYPE_ACCESS (Some 7)]\<rparr>)"
    by (simp add: run_defs example_defs ownerPermissions_of_mode_def groupPermissions_of_mode_def
        otherPermissions_of_mode_def mode_bit_defs permission_defs)
  have buf: "''????'' \<noteq> []" by simp
  from no_error_after_success [OF buf, where p = open_ok and f = "''/srv/data''" and l = 0
      and dc = blank and ?s1.0 = after_an_error and cp = "\<lambda>buf n src. src" and n = 4
      and dc' = "\<lparr>ownerId = 1000, ownerPermissions = 6, groupId = 0, groupPermissions = 4,
         otherPermissions = 4, aclSize = 3\<rparr>"
      and ?s1' = "after_an_error\<lparr>fd := 3, acl := Some 7, lastErrnoValue := 0,
          trace := [Open ''/srv/data'' 3, AclGetFd 3 ACL_TYPE_ACCESS (Some 7)]\<rparr>"] run
  show ?thesis
    by (simp add: after_an_error_def initially_def)
qed


subsection \<open>The ownership change and the mode change\<close>

lemma entry_error_acl_stage: "entry_error rc \<Longrightarrow> acl_stage_error rc"
  by (auto simp: entry_error_def acl_stage_error_def)

lemmas exit_simps = new_events_exit_events exit_events_projections projection_simps until_defs
  exit_state_fields under_way_fields

lemma changing_iff:
  "changing p dc =
     ((ownerId dc \<noteq> st_uid (w_fileStat p) \<and> ownerId dc \<noteq> - 1)
      \<or> (groupId dc \<noteq> st_gid (w_fileStat p) \<and> groupId dc \<noteq> - 1))"
  by (auto simp: changing_def newOwner_def newGroup_def)

lemma set_calls:
  assumes "SetFilePermissionDataAndAcl p f l dc es s = (rc, s')"
    and "\<not> fst (w_open p) < 0" and "\<not> fst (w_fstat p) < 0"
  shows "ownership_changes (new_events s s') =
           (if changing p dc
            then [Fchown (fst (w_open p)) (newOwner dc (w_fileStat p)) (newGroup dc (w_fileStat p))
                    (fst (w_fchown p))]
            else [])
       \<and> mode_changes (new_events s s') =
           (if changing p dc \<and> fst (w_fchown p) < 0 then []
            else [Fchmod (fst (w_open p)) (chmodBits dc) (fst (w_fchmod p))])"
  using set_exits[OF assms(1,2)] assms(3)
  by cases (simp_all add: exit_simps)

text \<open>
  C3, as amended. In a call whose \<open>open\<close> and \<open>fstat\<close> succeed, \<open>fchown\<close> is called
  exactly when the requested owner differs from the current one and is not \<open>-1\<close>, or
  the requested group differs from the current one and is not \<open>-1\<close>; it is called once,
  with the requested id where it differs and \<open>-1\<close> where it does not. \<open>fchmod\<close> is
  called once with the encoded mode in every such call, unless that \<open>fchown\<close> failed.
\<close>

theorem ownership_and_mode_calls:
  assumes "SetFilePermissionDataAndAcl p f l dc es s = (rc, s')"
    and "0 \<le> fst (w_open p)" and "0 \<le> fst (w_fstat p)"
  shows "ownership_changes (new_events s s') =
           (if (ownerId dc \<noteq> st_uid (w_fileStat p) \<and> ownerId dc \<noteq> - 1)
               \<or> (groupId dc \<noteq> st_gid (w_fileStat p) \<and> groupId dc \<noteq> - 1)
            then [Fchown (fst (w_open p))
                    (if ownerId dc \<noteq> st_uid (w_fileStat p) then ownerId dc else - 1)
                    (if groupId dc \<noteq> st_gid (w_fileStat p) then groupId dc else - 1)
                    (fst (w_fchown p))]
            else [])
       \<and> mode_changes (new_events s s') =
           (if ownership_changes (new_events s s') \<noteq> [] \<and> fst (w_fchown p) < 0 then []
            else [Fchmod (fst (w_open p))
                    (encodeMode (ownerPermissions dc) (groupPermissions dc) (otherPermissions dc))
                    (fst (w_fchmod p))])"
proof -
  from assms(2,3) have o: "\<not> fst (w_open p) < 0" and t: "\<not> fst (w_fstat p) < 0" by simp_all
  have c: "(ownership_changes (new_events s s') \<noteq> []) = changing p dc"
    using set_calls[OF assms(1) o t] by simp
  from set_calls[OF assms(1) o t] show ?thesis
    unfolding c unfolding changing_iff newOwner_def newGroup_def chmodBits_def by simp
qed

text \<open>
  C3, as stated, fails: the requested owner \<open>-1\<close> differs from the current owner 1000
  (the group is the same), and no \<open>fchown\<close> is issued.
\<close>

theorem sentinel_owner_is_not_changed:
  "ownerId request_sentinel \<noteq> st_uid (w_fileStat set_ok)
   \<and> groupId request_sentinel = st_gid (w_fileStat set_ok)
   \<and> fst (SetFilePermissionDataAndAcl set_ok ''/srv/data'' 0 request_sentinel
            (\<lambda>i. entry_of ACL_ENTRY_TAG_TYPE_USER_OBJ) initially) = NATIVE_ERROR_SUCCESS
   \<and> ownership_changes (new_events initially
        (snd (SetFilePermissionDataAndAcl set_ok ''/srv/data'' 0 request_sentinel
               (\<lambda>i. entry_of ACL_ENTRY_TAG_TYPE_USER_OBJ) initially))) = []"
  by (simp add: run_defs example_defs request_sentinel_def constant_defs one_iteration
      new_events_def projection_simps)

theorem ownership_and_mode_calls_witness:
  "SetFilePermissionDataAndAcl set_ok ''/srv/data'' 0 (request\<lparr>groupId := 50\<rparr>)
     (\<lambda>i. entry_of ACL_ENTRY_TAG_TYPE_USER_OBJ) initially =
     (NATIVE_ERROR_SUCCESS,
      initially\<lparr>trace := [Open ''/srv/data'' 3, Fchown 3 (- 1) 50 0, Fchmod 3 420 0, AclInit 1 (Some 7),
                            AclSetFd 3 (Some 7) 0, AclFree 7, Close 3]\<rparr>)
   \<and> (0::int) \<le> fst (w_open set_ok) \<and> (0::int) \<le> fst (w_fstat set_ok)
   \<and> ownership_changes [Open ''/srv/data'' 3, Fchown 3 (- 1) 50 0, Fchmod 3 420 0, AclInit 1 (Some 7),
                            AclSetFd 3 (Some 7) 0, AclFree 7, Close 3] = [Fchown 3 (- 1) 50 0]
   \<and> mode_changes [Open ''/srv/data'' 3, Fchown 3 (- 1) 50 0, Fchmod 3 420 0, AclInit 1 (Some 7),
                            AclSetFd 3 (Some 7) 0, AclFree 7, Close 3] = [Fchmod 3 420 0]"
proof -
  have run: "SetFilePermissionDataAndAcl set_ok ''/srv/data'' 0 (request\<lparr>groupId := 50\<rparr>)
     (\<lambda>i. entry_of ACL_ENTRY_TAG_TYPE_USER_OBJ) initially =
     (NATIVE_ERROR_SUCCESS,
      initially\<lparr>trace := [Open ''/srv/data'' 3, Fchown 3 (- 1) 50 0, Fchmod 3 420 0, AclInit 1 (Some 7),
                            AclSetFd 3 (Some 7) 0, AclFree 7, Close 3]\<rparr>)"
    by (simp add: run_defs example_defs constant_defs one_iteration encodeMode_def mode_bit_defs)
  have a: "(0::int) \<le> fst (w_open set_ok)" and b: "(0::int) \<le> fst (w_fstat set_ok)"
    by (simp_all add: set_ok_def)
  from ownership_and_mode_calls [OF run a b] a b run show ?thesis
    by (simp add: new_events_def initially_def set_ok_def request_def encodeMode_def mode_bit_defs
        permission_defs)
qed


subsection \<open>A failure after the mode change\<close>

lemma metadata_until:
  "metadata_changes (until_chmod p f dc) =
     (if changing p dc
      then [Fchown (fst (w_open p)) (newOwner dc (w_fileStat p)) (newGroup dc (w_fileStat p))
              (fst (w_fchown p))]
      else []) @ [Fchmod (fst (w_open p)) (chmodBits dc) (fst (w_fchmod p))]"
  "metadata_changes (until_init p f dc) = metadata_changes (until_chmod p f dc)"
  "metadata_changes (until_assign p f dc) = metadata_changes (until_chmod p f dc)"
  by (simp_all add: until_defs projection_simps)

lemma set_after_mode_change:
  assumes "SetFilePermissionDataAndAcl p f l dc es s = (rc, s')"
  shows "acl_stage_error rc \<Longrightarrow>
           metadata_changes (new_events s s') = metadata_changes (until_chmod p f dc)
           \<and> \<not> fst (w_open p) < 0 \<and> \<not> fst (w_fstat p) < 0
           \<and> \<not> (changing p dc \<and> fst (w_fchown p) < 0) \<and> \<not> fst (w_fchmod p) < 0"
    and "\<not> fst (w_open p) < 0 \<Longrightarrow> \<not> fst (w_fstat p) < 0 \<Longrightarrow>
         \<not> (changing p dc \<and> fst (w_fchown p) < 0) \<Longrightarrow> \<not> fst (w_fchmod p) < 0 \<Longrightarrow>
         rc \<noteq> NATIVE_ERROR_SUCCESS \<Longrightarrow> acl_stage_error rc"
proof -
  assume a: "acl_stage_error rc"
  have o: "\<not> fst (w_open p) < 0"
  proof
    assume "fst (w_open p) < 0"
    with assms a show False by (simp add: Set_open_failed acl_stage_error_def)
  qed
  from set_exits[OF assms o] a o
  show "metadata_changes (new_events s s') = metadata_changes (until_chmod p f dc)
           \<and> \<not> fst (w_open p) < 0 \<and> \<not> fst (w_fstat p) < 0
           \<and> \<not> (changing p dc \<and> fst (w_fchown p) < 0) \<and> \<not> fst (w_fchmod p) < 0"
    by cases (simp_all add: new_events_exit_events exit_events_projections changes_simps
        metadata_until acl_stage_error_def)
next
  assume o: "\<not> fst (w_open p) < 0" and "\<not> fst (w_fstat p) < 0"
    "\<not> (changing p dc \<and> fst (w_fchown p) < 0)" "\<not> fst (w_fchmod p) < 0"
    "rc \<noteq> NATIVE_ERROR_SUCCESS"
  with set_exits[OF assms o] show "acl_stage_error rc"
    by cases (auto simp: acl_stage_error_def entry_error_def)
qed

text \<open>
  C2. When SetFilePermissionDataAndAcl returns one of the error kinds of the ACL steps,
  \<open>open\<close>, \<open>fstat\<close>, the \<open>fchown\<close> (if it was due) and the \<open>fchmod\<close> have succeeded, and
  these successful \<open>fchown\<close> and \<open>fchmod\<close> are the only calls of the operation that
  change owner, group or mode: nothing is issued afterwards to take them back. The
  kind returned is the one of the call that failed. Conversely, a call that gets past
  the mode change and does not succeed returns one of these error kinds.
\<close>

theorem acl_failure_keeps_changes:
  assumes "SetFilePermissionDataAndAcl p f l dc es s = (rc, s')"
  shows "(acl_stage_error rc \<longrightarrow>
            metadata_changes (new_events s s') =
              (if changing p dc
               then [Fchown (fst (w_open p)) (newOwner dc (w_fileStat p)) (newGroup dc (w_fileStat p))
                       (fst (w_fchown p))]
               else []) @ [Fchmod (fst (w_open p)) (chmodBits dc) (fst (w_fchmod p))]
            \<and> 0 \<le> fst (w_open p) \<and> 0 \<le> fst (w_fstat p)
            \<and> (changing p dc \<longrightarrow> 0 \<le> fst (w_fchown p)) \<and> 0 \<le> fst (w_fchmod p)
            \<and> error_captured s rc s')
       \<and> (0 \<le> fst (w_open p) \<and> 0 \<le> fst (w_fstat p) \<and> (changing p dc \<longrightarrow> 0 \<le> fst (w_fchown p))
            \<and> 0 \<le> fst (w_fchmod p) \<and> rc \<noteq> NATIVE_ERROR_SUCCESS \<longrightarrow> acl_stage_error rc)"
  using set_after_mode_change(1)[OF assms] set_after_mode_change(2)[OF assms] set_channel[OF assms]
  by (auto simp: metadata_until not_less)

theorem acl_failure_keeps_changes_witness:
  "SetFilePermissionDataAndAcl rejected_acl ''/srv/data'' 0 (request\<lparr>groupId := 50\<rparr>)
     (\<lambda>i. entry_of ACL_ENTRY_TAG_TYPE_USER_OBJ) initially =
     (NATIVE_ERROR_VALIDATE_ACL_FAILED,
      initially\<lparr>lastErrnoValue := 22, lastErrnoString := ''Error'', errno := 22,
                 trace := [Open ''/srv/data'' 3, Fchown 3 (- 1) 50 0, Fchmod 3 420 0, AclInit 1 (Some 7),
                            Failed C_acl_valid 22, AclFree 7, Close 3]\<rparr>)
   \<and> acl_stage_error NATIVE_ERROR_VALIDATE_ACL_FAILED
   \<and> metadata_changes [Open ''/srv/data'' 3, Fchown 3 (- 1) 50 0, Fchmod 3 420 0, AclInit 1 (Some 7),
                            Failed C_acl_valid 22, AclFree 7, Close 3]
       = [Fchown 3 (- 1) 50 0, Fchmod 3 420 0]"
proof -
  have run: "SetFilePermissionDataAndAcl rejected_acl ''/srv/data'' 0 (request\<lparr>groupId := 50\<rparr>)
     (\<lambda>i. entry_of ACL_ENTRY_TAG_TYPE_USER_OBJ) initially =
     (NATIVE_ERROR_VALIDATE_ACL_FAILED,
      initially\<lparr>lastErrnoValue := 22, lastErrnoString := ''Error'', errno := 22,
                 trace := [Open ''/srv/data'' 3, Fchown 3 (- 1) 50 0, Fchmod 3 420 0, AclInit 1 (Some 7),
                            Failed C_acl_valid 22, AclFree 7, Close 3]\<rparr>)"
    by (simp add: run_defs example_defs example2_defs constant_defs one_iteration encodeMode_def
        mode_bit_defs)
  have a: "acl_stage_error NATIVE_ERROR_VALIDATE_ACL_FAILED"
    by (simp add: acl_stage_error_def)
  from acl_failure_keeps_changes [OF run] a run show ?thesis
    by (simp add: new_events_def initially_def projection_simps)
qed

subsection \<open>Release of the descriptor and of the ACL handle\<close>

lemma owed_until:
  "\<not> fst (w_open p) < 0 \<Longrightarrow> owed_releases (until_chown p f dc) = [Close (fst (w_open p))]"
  "\<not> fst (w_open p) < 0 \<Longrightarrow> owed_releases (until_chmod p f dc) = [Close (fst (w_open p))]"
  "\<not> fst (w_open p) < 0 \<Longrightarrow> owed_releases (until_init p f dc) =
      Close (fst (w_open p)) # (case pointer (w_acl_init p) of Some h \<Rightarrow> [AclFree h] | None \<Rightarrow> [])"
  "\<not> fst (w_open p) < 0 \<Longrightarrow> owed_releases (until_assign p f dc) =
      Close (fst (w_open p)) # (case pointer (w_acl_init p) of Some h \<Rightarrow> [AclFree h] | None \<Rightarrow> [])"
  by (simp_all add: until_defs projection_simps split: option.splits)

lemma set_releases:
  assumes "SetFilePermissionDataAndAcl p f l dc es s = (rc, s')"
    and "acl s = None" and "fst (w_open p) \<noteq> 0"
  shows "released_exactly_once (new_events s s') \<and> acl s' = None
         \<and> (rc = NATIVE_ERROR_OPEN_FAILED \<or> fd s' = 0)"
proof (cases "fst (w_open p) < 0")
  case True
  with assms show ?thesis
    by (auto simp: Set_open_failed released_exactly_once_def new_events_def projection_simps)
next
  case False
  from set_exits[OF assms(1) False] assms(2,3) False show ?thesis
    by cases
      (simp_all add: released_exactly_once_def new_events_exit_events exit_events_projections
        projection_simps owed_until until_projections exit_state_fields pointer_cases)
qed

lemma open_releases:
  assumes "OpenFileAndReadPermissionData p f l dc s = (rc, dc', s')"
    and "acl s = None" and "fst (o_open p) \<noteq> 0"
  shows "if rc = NATIVE_ERROR_SUCCESS
         then releases (new_events s s') = [] \<and> fd s' = fst (o_open p)
              \<and> acl s' = pointer (o_acl_get_fd p) \<and> acl s' \<noteq> None
         else released_exactly_once (new_events s s') \<and> acl s' = None
              \<and> (rc = NATIVE_ERROR_OPEN_FAILED \<or> fd s' = 0)"
proof (cases "fst (o_open p) < 0")
  case True
  with assms show ?thesis
    by (auto simp: Open_open_failed released_exactly_once_def new_events_def projection_simps)
next
  case False
  from assms False show ?thesis
    unfolding Open_opened[OF False]
    by (auto simp: released_exactly_once_def new_events_exit_events exit_events_projections
        new_events_under_way projection_simps until_get_acl_def exit_state_fields under_way_fields
        pointer_cases split: if_splits sum.splits option.splits)
qed

lemma read_releases:
  assumes "ReadFileAclAndClose w es s = (rc, es', s')"
    and "acl s = Some h" and "fd s \<noteq> 0"
  shows "releases (new_events s s') = [AclFree h, Close (fd s)] \<and> fd s' = 0 \<and> acl s' = None"
  using assms unfolding Read_run
  by (auto simp: new_events_exit_events exit_events_projections projection_simps
      walk_events_projections exit_state_fields walked_fields split: option.splits)

text \<open>
  C5, as amended. With no handle held at the call and a descriptor other than 0 from
  \<open>open\<close>: a successful OpenFileAndReadPermissionData releases nothing and keeps the
  descriptor and the handle in their variables; a failing one, and
  SetFilePermissionDataAndAcl on every path, release exactly what they acquired, once
  each, and leave no handle (and no descriptor, unless \<open>open\<close> itself failed).
  ReadFileAclAndClose, called with a handle and a descriptor other than 0 held,
  releases that handle and then that descriptor, once each, on every path.
\<close>

theorem resources_released:
  "(acl s1 = None \<and> fst (o_open p) \<noteq> 0 \<longrightarrow>
      (case OpenFileAndReadPermissionData p f l dc s1 of (rc, dc', s') \<Rightarrow>
         if rc = NATIVE_ERROR_SUCCESS
         then releases (new_events s1 s') = [] \<and> fd s' = fst (o_open p)
              \<and> acl s' = pointer (o_acl_get_fd p) \<and> acl s' \<noteq> None
         else released_exactly_once (new_events s1 s') \<and> acl s' = None
              \<and> (rc = NATIVE_ERROR_OPEN_FAILED \<or> fd s' = 0)))
   \<and> (acl s2 = Some h \<and> fd s2 \<noteq> 0 \<longrightarrow>
      (case ReadFileAclAndClose w es s2 of (rc, es', s') \<Rightarrow>
         releases (new_events s2 s') = [AclFree h, Close (fd s2)] \<and> fd s' = 0 \<and> acl s' = None))
   \<and> (acl s3 = None \<and> fst (w_open q) \<noteq> 0 \<longrightarrow>
      (case SetFilePermissionDataAndAcl q g m dc2 es2 s3 of (rc, s') \<Rightarrow>
         released_exactly_once (new_events s3 s') \<and> acl s' = None
         \<and> (rc = NATIVE_ERROR_OPEN_FAILED \<or> fd s' = 0)))"
proof (intro conjI impI)
  assume a: "acl s1 = None \<and> fst (o_open p) \<noteq> 0"
  obtain rc dc' s' where r: "OpenFileAndReadPermissionData p f l dc s1 = (rc, dc', s')"
    by (cases "OpenFileAndReadPermissionData p f l dc s1")
  from a have "acl s1 = None" and "fst (o_open p) \<noteq> 0" by simp_all
  from open_releases[OF r this]
  show "case OpenFileAndReadPermissionData p f l dc s1 of (rc, dc', s') \<Rightarrow>
         if rc = NATIVE_ERROR_SUCCESS
         then releases (new_events s1 s') = [] \<and> fd s' = fst (o_open p)
              \<and> acl s' = pointer (o_acl_get_fd p) \<and> acl s' \<noteq> None
         else released_exactly_once (new_events s1 s') \<and> acl s' = None
              \<and> (rc = NATIVE_ERROR_OPEN_FAILED \<or> fd s' = 0)"
    unfolding r by simp
next
  assume a: "acl s2 = Some h \<and> fd s2 \<noteq> 0"
  obtain rc es' s' where r: "ReadFileAclAndClose w es s2 = (rc, es', s')"
    by (cases "ReadFileAclAndClose w es s2")
  from a have "acl s2 = Some h" and "fd s2 \<noteq> 0" by simp_all
  from read_releases[OF r this]
  show "case ReadFileAclAndClose w es s2 of (rc, es', s') \<Rightarrow>
         releases (new_events s2 s') = [AclFree h, Close (fd s2)] \<and> fd s' = 0 \<and> acl s' = None"
    unfolding r by simp
next
  assume a: "acl s3 = None \<and> fst (w_open q) \<noteq> 0"
  obtain rc s' where r: "SetFilePermissionDataAndAcl q g m dc2 es2 s3 = (rc, s')"
    by (cases "SetFilePermissionDataAndAcl q g m dc2 es2 s3")
  from a have "acl s3 = None" and "fst (w_open q) \<noteq> 0" by simp_all
  from set_releases[OF r this]
  show "case SetFilePermissionDataAndAcl q g m dc2 es2 s3 of (rc, s') \<Rightarrow>
         released_exactly_once (new_events s3 s') \<and> acl s' = None
         \<and> (rc = NATIVE_ERROR_OPEN_FAILED \<or> fd s' = 0)"
    unfolding r by simp
qed

text \<open>
  C5, as stated, fails: the successful OpenFileAndReadPermissionData acquires
  descriptor 3 and handle 7 and returns without releasing either.
\<close>

theorem successful_open_releases_nothing:
  "fst (OpenFileAndReadPermissionData open_ok ''/srv/data'' 0 blank initially) = NATIVE_ERROR_SUCCESS
   \<and> new_events initially (snd (snd (OpenFileAndReadPermissionData open_ok ''/srv/data'' 0 blank initially)))
       = [Open ''/srv/data'' 3, AclGetFd 3 ACL_TYPE_ACCESS (Some 7)]
   \<and> owed_releases [Open ''/srv/data'' 3, AclGetFd 3 ACL_TYPE_ACCESS (Some 7)] = [Close 3, AclFree 7]
   \<and> releases [Open ''/srv/data'' 3, AclGetFd 3 ACL_TYPE_ACCESS (Some 7)] = []
   \<and> \<not> released_exactly_once
         (new_events initially (snd (snd (OpenFileAndReadPermissionData open_ok ''/srv/data'' 0 blank initially))))"
  by (simp add: run_defs example_defs new_events_def projection_simps released_exactly_once_def)

theorem resources_released_witness:
  "acl initially = None \<and> fst (o_open denied_fstat) \<noteq> 0
   \<and> OpenFileAndReadPermissionData denied_fstat ''/srv/data'' 0 blank initially =
       (NATIVE_ERROR_FSTAT_FAILED, blank,
        initially\<lparr>lastErrnoValue := 13, lastErrnoString := ''Permission denied'', errno := 13,
                   trace := [Open ''/srv/data'' 3, Failed C_fstat 13, Close 3]\<rparr>)
   \<and> released_exactly_once [Open ''/srv/data'' 3, Failed C_fstat 13, Close 3]
   \<and> acl loaded = Some 7 \<and> fd loaded \<noteq> 0
   \<and> fst (ReadFileAclAndClose minimal_walk (\<lambda>i. entry_of 0) loaded) = NATIVE_ERROR_SUCCESS
   \<and> releases (new_events loaded (snd (snd (ReadFileAclAndClose minimal_walk (\<lambda>i. entry_of 0) loaded))))
       = [AclFree 7, Close 3]
   \<and> fst (w_open set_ok) \<noteq> 0
   \<and> SetFilePermissionDataAndAcl set_ok ''/srv/data'' 0 request
        (\<lambda>i. entry_of ACL_ENTRY_TAG_TYPE_USER_OBJ) initially =
       (NATIVE_ERROR_SUCCESS,
        initially\<lparr>trace := [Open ''/srv/data'' 3, Fchmod 3 420 0, AclInit 1 (Some 7),
                              AclSetFd 3 (Some 7) 0, AclFree 7, Close 3]\<rparr>)
   \<and> released_exactly_once [Open ''/srv/data'' 3, Fchmod 3 420 0, AclInit 1 (Some 7),
                              AclSetFd 3 (Some 7) 0, AclFree 7, Close 3]"
proof -
  have run1: "OpenFileAndReadPermissionData denied_fstat ''/srv/data'' 0 blank initially =
       (NATIVE_ERROR_FSTAT_FAILED, blank,
        initially\<lparr>lastErrnoValue := 13, lastErrnoString := ''Permission denied'', errno := 13,
                   trace := [Open ''/srv/data'' 3, Failed C_fstat 13, Close 3]\<rparr>)"
    by (simp add: run_defs example_defs example2_defs)
  have run2: "fst (ReadFileAclAndClose minimal_walk (\<lambda>i. entry_of 0) loaded) = NATIVE_ERROR_SUCCESS"
    by (simp add: run_defs example_defs example2_defs constant_defs)
  have run3: "SetFilePermissionDataAndAcl set_ok ''/srv/data'' 0 request
        (\<lambda>i. entry_of ACL_ENTRY_TAG_TYPE_USER_OBJ) initially =
       (NATIVE_ERROR_SUCCESS,
        initially\<lparr>trace := [Open ''/srv/data'' 3, Fchmod 3 420 0, AclInit 1 (Some 7),
                              AclSetFd 3 (Some 7) 0, AclFree 7, Close 3]\<rparr>)"
    by (simp add: run_defs example_defs constant_defs one_iteration encodeMode_def mode_bit_defs)
  have pre: "acl initially = None" "fst (o_open denied_fstat) \<noteq> 0" "acl loaded = Some 7"
    "fd loaded \<noteq> 0" "fst (w_open set_ok) \<noteq> 0" "fd loaded = 3"
    by (simp_all add: initially_def loaded_def denied_fstat_def open_ok_def set_ok_def)
  from resources_released [where ?s1.0 = initially and p = denied_fstat and f = "''/srv/data''"
      and l = 0 and dc = blank and ?s2.0 = loaded and h = 7 and w = minimal_walk
      and es = "\<lambda>i. entry_of 0" and ?s3.0 = initially and q = set_ok and g = "''/srv/data''"
      and m = 0 and ?dc2.0 = request and ?es2.0 = "\<lambda>i. entry_of ACL_ENTRY_TAG_TYPE_USER_OBJ"]
    pre run1 run2 run3
  show ?thesis
    by (simp add: split_beta new_events_def initially_def)
qed

subsection \<open>An entry with an unknown tag\<close>

text \<open>
  C7. The code does not do what the claim says: for an entry whose tag is
  \<open>ACL_UNDEFINED_TAG\<close> the operation succeeds and the tag type field keeps what the
  caller's array held before, here \<open>ACL_ENTRY_TAG_TYPE_USER_OBJ\<close>, so that the result is
  the very result of reading an entry tagged \<open>ACL_USER_OBJ\<close>.
\<close>

theorem undefined_tag_leaves_stale_tag_type:
  "ReadFileAclAndClose \<lparr>walk_entries = [plain_entry ACL_UNDEFINED_TAG], walk_end = None\<rparr>
     (\<lambda>i. entry_of ACL_ENTRY_TAG_TYPE_USER_OBJ) loaded
   = ReadFileAclAndClose \<lparr>walk_entries = [plain_entry ACL_USER_OBJ], walk_end = None\<rparr>
     (\<lambda>i. entry_of ACL_ENTRY_TAG_TYPE_USER_OBJ) loaded
   \<and> fst (ReadFileAclAndClose \<lparr>walk_entries = [plain_entry ACL_UNDEFINED_TAG], walk_end = None\<rparr>
     (\<lambda>i. entry_of ACL_ENTRY_TAG_TYPE_USER_OBJ) loaded) = NATIVE_ERROR_SUCCESS
   \<and> tagType (fst (snd (ReadFileAclAndClose
        \<lparr>walk_entries = [plain_entry ACL_UNDEFINED_TAG], walk_end = None\<rparr>
        (\<lambda>i. entry_of ACL_ENTRY_TAG_TYPE_USER_OBJ) loaded)) 0) = ACL_ENTRY_TAG_TYPE_USER_OBJ"
  by (simp add: run_defs example_defs example2_defs)

subsection \<open>The array after a failure in the middle of the walk\<close>

text \<open>
  C9, as amended. When the entry at index \<open>k\<close> is the first on which a query fails,
  ReadFileAclAndClose returns the error kind of that query; the records below \<open>k\<close> hold
  what the decoding of their entries stored, the record at \<open>k\<close> holds the fields
  stored before the failing query (none when the tag query failed), the records above
  \<open>k\<close> are as they were, and nothing is restored.
\<close>

theorem partial_decoding:
  assumes "k < length (walk_entries w)"
    and "\<forall>j<k. \<not> decoding_fails (walk_entries w ! j)"
    and "decoding_fails (walk_entries w ! k)"
  shows "case ReadFileAclAndClose w es s of (rc, es', s') \<Rightarrow>
           rc = decoding_error (walk_entries w ! k)
           \<and> (\<forall>j<k. es' j = decoded (walk_entries w ! j) (es j))
           \<and> es' k = partly_decoded (walk_entries w ! k) (es k)
           \<and> (\<forall>j>k. es' j = es j)"
  unfolding Read_run first_failure_at[OF assms]
  by (simp add: decode_all_at[OF assms, where i = 0])

text \<open>
  C9, as stated, fails: when the tag query fails on the first entry, the operation
  fails and the array is exactly as the caller passed it.
\<close>

theorem first_tag_query_failure_leaves_array:
  "fst (ReadFileAclAndClose unreadable_tag (\<lambda>i. entry_of 0) loaded)
     = NATIVE_ERROR_GET_ACL_ENTRY_TAG_TYPE_FAILED
   \<and> fst (snd (ReadFileAclAndClose unreadable_tag (\<lambda>i. entry_of 0) loaded)) = (\<lambda>i. entry_of 0)"
  by (simp add: run_defs example_defs example2_defs unreadable_tag_def fun_upd_idem)

theorem partial_decoding_witness:
  "(1::nat) < length (walk_entries broken_walk)
   \<and> \<not> decoding_fails (walk_entries broken_walk ! 0)
   \<and> decoding_fails (walk_entries broken_walk ! 1)
   \<and> fst (ReadFileAclAndClose broken_walk (\<lambda>i. entry_of 0) loaded)
       = NATIVE_ERROR_GET_ACL_ENTRY_QUALIFIER_FAILED
   \<and> fst (snd (ReadFileAclAndClose broken_walk (\<lambda>i. entry_of 0) loaded)) 0
       = \<lparr>tagType = ACL_ENTRY_TAG_TYPE_USER_OBJ, tagQualifier = 0, permissions = 6\<rparr>
   \<and> fst (snd (ReadFileAclAndClose broken_walk (\<lambda>i. entry_of 0) loaded)) 1
       = \<lparr>tagType = ACL_ENTRY_TAG_TYPE_USER, tagQualifier = 0, permissions = 6\<rparr>
   \<and> fst (snd (ReadFileAclAndClose broken_walk (\<lambda>i. entry_of 0) loaded)) 2 = entry_of 0"
proof -
  have a: "(1::nat) < length (walk_entries broken_walk)"
    by (simp add: broken_walk_def)
  have b: "\<forall>j<1::nat. \<not> decoding_fails (walk_entries broken_walk ! j)"
    by (simp add: broken_walk_def plain_entry_def decoding_fails_def tag_query_fails_def
        qualifier_query_fails_def permission_query_fails_def has_qualifier_def)
  have c: "decoding_fails (walk_entries broken_walk ! 1)"
    by (simp add: broken_walk_def plain_entry_def decoding_fails_def tag_query_fails_def
        qualifier_query_fails_def permission_query_fails_def has_qualifier_def pointer_def)
  from partial_decoding [OF a b c, of "\<lambda>i. entry_of 0" loaded] a b c
  show ?thesis
    by (simp add: split_beta broken_walk_def plain_entry_def decoding_error_def decoded_def
        partly_decoded_def tag_query_fails_def qualifier_query_fails_def has_qualifier_def
        pointer_def qualifier_of_def set_tag_type_def entry_permissions_def entry_of_def
        permission_defs constant_defs)
qed

subsection \<open>The descriptor variable after a failed open\<close>

lemma new_events_cleanup:
  "new_events s (snd (cleanup_with_error_code rc s)) = release_events s"
  by (simp add: new_events_def cleanup_with_error_code_def Let_def call_discarded_def
      release_events_def split: option.splits)

lemma close_in_exit_events: "d \<noteq> 0 \<Longrightarrow> Close d \<in> set (exit_events rc e d a)"
  by (simp add: exit_events_def)

lemma read_closes:
  "fd s \<noteq> 0 \<Longrightarrow> Close (fd s) \<in> set (new_events s (snd (snd (ReadFileAclAndClose w es s))))"
  unfolding Read_run
  by (simp add: new_events_exit_events close_in_exit_events walked_fields split: option.splits)

lemma read_never_closes_0:
  "Close 0 \<notin> set (new_events s (snd (snd (ReadFileAclAndClose w es s))))"
  unfolding Read_run
  by (simp add: new_events_exit_events exit_events_projections walk_events_projections
      walked_fields split: option.splits)

lemma open_never_closes_0:
  "Close 0 \<notin> set (new_events s (snd (snd (OpenFileAndReadPermissionData p f l dc s))))"
proof (cases "fst (o_open p) < 0")
  case True
  then show ?thesis by (simp add: Open_open_failed new_events_def)
next
  case False
  show ?thesis
    unfolding Open_opened[OF False]
    by (simp add: new_events_exit_events exit_events_projections new_events_under_way
        until_get_acl_def split: sum.splits option.splits)
qed

lemma set_never_closes_0:
  "Close 0 \<notin> set (new_events s (snd (SetFilePermissionDataAndAcl p f l dc es s)))"
proof (cases "fst (w_open p) < 0")
  case True
  then show ?thesis by (simp add: Set_open_failed new_events_def)
next
  case False
  obtain rc s' where r: "SetFilePermissionDataAndAcl p f l dc es s = (rc, s')"
    by (cases "SetFilePermissionDataAndAcl p f l dc es s")
  from set_exits[OF r False] have "Close 0 \<notin> set (new_events s s')"
    by cases (simp_all add: new_events_exit_events exit_events_projections until_defs)
  with r show ?thesis by simp
qed

text \<open>
  C10. When \<open>open\<close> fails in OpenFileAndReadPermissionData or in
  SetFilePermissionDataAndAcl, the operation returns with the negative value in the
  descriptor variable, and a ReadFileAclAndClose called next passes that value to
  \<open>close\<close>. The cleanup closes whatever value other than 0 the variable holds, and
  closes nothing when it holds 0; no operation ever closes descriptor 0.
\<close>

theorem stale_descriptor:
  "(fst (o_open p) < 0 \<longrightarrow>
      (case OpenFileAndReadPermissionData p f l dc s1 of (rc, dc', s') \<Rightarrow>
         rc = NATIVE_ERROR_OPEN_FAILED \<and> fd s' = fst (o_open p)
         \<and> Close (fst (o_open p)) \<in> set (new_events s' (snd (snd (ReadFileAclAndClose w es s'))))))
   \<and> (fst (w_open q) < 0 \<longrightarrow>
      (case SetFilePermissionDataAndAcl q g m dc2 es2 s2 of (rc, s') \<Rightarrow>
         rc = NATIVE_ERROR_OPEN_FAILED \<and> fd s' = fst (w_open q)
         \<and> Close (fst (w_open q)) \<in> set (new_events s' (snd (snd (ReadFileAclAndClose w es s'))))))
   \<and> (fd s \<noteq> 0 \<longrightarrow> Close (fd s) \<in> set (new_events s (snd (cleanup_with_error_code rc0 s))))
   \<and> (fd s = 0 \<longrightarrow> (\<forall>d. Close d \<notin> set (new_events s (snd (cleanup_with_error_code rc0 s)))))
   \<and> Close 0 \<notin> set (new_events s (snd (snd (OpenFileAndReadPermissionData p f l dc s))))
   \<and> Close 0 \<notin> set (new_events s (snd (snd (ReadFileAclAndClose w es s))))
   \<and> Close 0 \<notin> set (new_events s (snd (SetFilePermissionDataAndAcl q g m dc2 es2 s)))"
proof -
  have a: "fst (o_open p) < 0 \<longrightarrow>
      (case OpenFileAndReadPermissionData p f l dc s1 of (rc, dc', s') \<Rightarrow>
         rc = NATIVE_ERROR_OPEN_FAILED \<and> fd s' = fst (o_open p)
         \<and> Close (fst (o_open p)) \<in> set (new_events s' (snd (snd (ReadFileAclAndClose w es s')))))"
  proof
    assume n: "fst (o_open p) < 0"
    let ?s = "s1\<lparr>fd := fst (o_open p), lastErrnoValue := snd (o_open p),
        lastErrnoString := strerror_r s1 (snd (o_open p)) (lastErrnoString s1), errno := snd (o_open p),
        trace := trace s1 @ [Open f (fst (o_open p)), Failed C_open (snd (o_open p))]\<rparr>"
    from n have "fd ?s \<noteq> 0" by simp
    from read_closes[OF this, of w es] n
    show "case OpenFileAndReadPermissionData p f l dc s1 of (rc, dc', s') \<Rightarrow>
         rc = NATIVE_ERROR_OPEN_FAILED \<and> fd s' = fst (o_open p)
         \<and> Close (fst (o_open p)) \<in> set (new_events s' (snd (snd (ReadFileAclAndClose w es s'))))"
      by (simp add: Open_open_failed)
  qed
  have b: "fst (w_open q) < 0 \<longrightarrow>
      (case SetFilePermissionDataAndAcl q g m dc2 es2 s2 of (rc, s') \<Rightarrow>
         rc = NATIVE_ERROR_OPEN_FAILED \<and> fd s' = fst (w_open q)
         \<and> Close (fst (w_open q)) \<in> set (new_events s' (snd (snd (ReadFileAclAndClose w es s')))))"
  proof
    assume n: "fst (w_open q) < 0"
    let ?s = "s2\<lparr>fd := fst (w_open q), lastErrnoValue := snd (w_open q),
        lastErrnoString := strerror_r s2 (snd (w_open q)) (lastErrnoString s2), errno := snd (w_open q),
        trace := trace s2 @ [Open g (fst (w_open q)), Failed C_open (snd (w_open q))]\<rparr>"
    from n have "fd ?s \<noteq> 0" by simp
    from read_closes[OF this, of w es] n
    show "case SetFilePermissionDataAndAcl q g m dc2 es2 s2 of (rc, s') \<Rightarrow>
         rc = NATIVE_ERROR_OPEN_FAILED \<and> fd s' = fst (w_open q)
         \<and> Close (fst (w_open q)) \<in> set (new_events s' (snd (snd (ReadFileAclAndClose w es s'))))"
      by (simp add: Set_open_failed)
  qed
  have c: "fd s \<noteq> 0 \<longrightarrow> Close (fd s) \<in> set (new_events s (snd (cleanup_with_error_code rc0 s)))"
    by (simp add: new_events_cleanup release_events_def)
  have d: "fd s = 0 \<longrightarrow> (\<forall>d. Close d \<notin> set (new_events s (snd (cleanup_with_error_code rc0 s))))"
    by (simp add: new_events_cleanup release_events_def split: option.splits)
  from a b c d show ?thesis
    by (simp only: open_never_closes_0 read_never_closes_0 set_never_closes_0 simp_thms)
qed

theorem stale_descriptor_witness:
  "fst (o_open missing_file) < 0
   \<and> OpenFileAndReadPermissionData missing_file ''/srv/none'' 0 blank initially =
       (NATIVE_ERROR_OPEN_FAILED, blank,
        initially\<lparr>fd := - 1, lastErrnoValue := 2, lastErrnoString := ''Error'', errno := 2,
                   trace := [Open ''/srv/none'' (- 1), Failed C_open 2]\<rparr>)
   \<and> Close (- 1) \<in> set (new_events
        (initially\<lparr>fd := - 1, lastErrnoValue := 2, lastErrnoString := ''Error'', errno := 2,
                   trace := [Open ''/srv/none'' (- 1), Failed C_open 2]\<rparr>)
        (snd (snd (ReadFileAclAndClose minimal_walk (\<lambda>i. entry_of 0)
           (initially\<lparr>fd := - 1, lastErrnoValue := 2, lastErrnoString := ''Error'', errno := 2,
                   trace := [Open ''/srv/none'' (- 1), Failed C_open 2]\<rparr>)))))
   \<and> fd initially = 0
   \<and> new_events initially (snd (cleanup_with_error_code NATIVE_ERROR_SUCCESS initially)) = []
   \<and> fd loaded \<noteq> 0
   \<and> new_events loaded (snd (cleanup_with_error_code NATIVE_ERROR_SUCCESS loaded)) = [AclFree 7, Close 3]"
proof -
  have n: "fst (o_open missing_file) < 0"
    by (simp add: missing_file_def)
  have run: "OpenFileAndReadPermissionData missing_file ''/srv/none'' 0 blank initially =
       (NATIVE_ERROR_OPEN_FAILED, blank,
        initially\<lparr>fd := - 1, lastErrnoValue := 2, lastErrnoString := ''Error'', errno := 2,
                   trace := [Open ''/srv/none'' (- 1), Failed C_open 2]\<rparr>)"
    by (simp add: run_defs example_defs missing_file_def)
  have z: "fd initially = 0" "fd loaded \<noteq> 0"
    "new_events initially (snd (cleanup_with_error_code NATIVE_ERROR_SUCCESS initially)) = []"
    "new_events loaded (snd (cleanup_with_error_code NATIVE_ERROR_SUCCESS loaded)) = [AclFree 7, Close 3]"
    by (simp_all add: initially_def loaded_def new_events_def cleanup_with_error_code_def
        call_discarded_def Let_def)
  have o: "fst (o_open missing_file) = - 1"
    by (simp add: missing_file_def)
  from stale_descriptor [where p = missing_file and f = "''/srv/none''" and l = 0 and dc = blank
      and ?s1.0 = initially and w = minimal_walk and es = "\<lambda>i. entry_of 0" and s = initially
      and ?rc0.0 = NATIVE_ERROR_SUCCESS] n run z o
  show ?thesis
    by simp
qed

end
